theory Spec2Isabelle
  imports Complex_Main "HOL-Library.AList"
begin

section \<open>Subtask setup of an AutoMech run: a model of \<open>automech/cli/_subtasks_setup.py\<close>\<close>

text \<open>
  Python exceptions are values: every function of the source that can raise returns
  \<open>error + 'a\<close>, with \<open>Inl\<close> the exception.  Python's unbounded integers are \<open>int\<close>,
  its strings are \<open>string\<close> (code points below 256).
\<close>

datatype error =
    ParseException
  | ValueError
  | TypeError
  | AttributeError
  | IndexError
  | KeyError
  | AssertionError
  | FileNotFoundError
  | FileExistsError
  | NotADirectoryError
  | IsADirectoryError
  | LibraryError
  | NonTermination

subsection \<open>Python strings and dictionaries\<close>

abbreviation LF :: char where "LF \<equiv> CHR 0x0A"
abbreviation CR :: char where "CR \<equiv> CHR 0x0D"
abbreviation TAB :: char where "TAB \<equiv> CHR 0x09"
abbreviation SP :: char where "SP \<equiv> CHR '' ''"

text \<open>\<open>str.isspace\<close> on code points below 256.\<close>

definition py_isspace :: "char \<Rightarrow> bool" where
  "py_isspace c \<longleftrightarrow>
     (let n = (of_char c :: nat)
      in (9 \<le> n \<and> n \<le> 13) \<or> (28 \<le> n \<and> n \<le> 32) \<or> n = 133 \<or> n = 160)"

text \<open>\<open>s.split()\<close>: the maximal runs of non-whitespace characters.\<close>

fun split_acc :: "string \<Rightarrow> string \<Rightarrow> string list" where
  "split_acc cur [] = (if cur = [] then [] else [rev cur])"
| "split_acc cur (c # cs) =
     (if py_isspace c
      then (if cur = [] then split_acc [] cs else rev cur # split_acc [] cs)
      else split_acc (c # cur) cs)"

definition py_split :: "string \<Rightarrow> string list" where
  "py_split s = split_acc [] s"

definition py_strip :: "string \<Rightarrow> string" where
  "py_strip s = rev (dropWhile py_isspace (rev (dropWhile py_isspace s)))"

definition startswith :: "string \<Rightarrow> string \<Rightarrow> bool" where
  "startswith s prefix \<longleftrightarrow> take (length prefix) s = prefix"

text \<open>
  \<open>s.splitlines(keepends)\<close>: a line ends at \<open>\r\n\<close>, \<open>\n\<close>, \<open>\r\<close>, \<open>\v\<close>, \<open>\f\<close>,
  \<open>\x1c\<close>, \<open>\x1d\<close>, \<open>\x1e\<close> or \<open>\x85\<close>.
\<close>

definition is_linebreak :: "char \<Rightarrow> bool" where
  "is_linebreak c \<longleftrightarrow>
     (let n = (of_char c :: nat) in (10 \<le> n \<and> n \<le> 13) \<or> (28 \<le> n \<and> n \<le> 30) \<or> n = 133)"

fun splitlines_acc :: "bool \<Rightarrow> string \<Rightarrow> string \<Rightarrow> string list" where
  "splitlines_acc keepends cur [] = (if cur = [] then [] else [rev cur])"
| "splitlines_acc keepends cur [c] =
     (if is_linebreak c then [rev cur @ (if keepends then [c] else [])]
      else [rev (c # cur)])"
| "splitlines_acc keepends cur (c # d # cs) =
     (if c = CR \<and> d = LF
      then (rev cur @ (if keepends then [c, d] else [])) # splitlines_acc keepends [] cs
      else if is_linebreak c
      then (rev cur @ (if keepends then [c] else [])) # splitlines_acc keepends [] (d # cs)
      else splitlines_acc keepends (c # cur) (d # cs))"

definition splitlines :: "bool \<Rightarrow> string \<Rightarrow> string list" where
  "splitlines keepends s = splitlines_acc keepends [] s"

text \<open>\<open>s.expandtabs()\<close> with the default tab size 8.\<close>

fun expandtabs_col :: "nat \<Rightarrow> string \<Rightarrow> string" where
  "expandtabs_col col [] = []"
| "expandtabs_col col (c # cs) =
     (if c = TAB then replicate (8 - col mod 8) SP @ expandtabs_col (col + (8 - col mod 8)) cs
      else if c = LF \<or> c = CR then c # expandtabs_col 0 cs
      else c # expandtabs_col (col + 1) cs)"

definition expandtabs :: "string \<Rightarrow> string" where
  "expandtabs s = expandtabs_col 0 s"

text \<open>
  A dictionary is an association list with distinct keys in insertion order:
  \<open>d[k] = v\<close> is \<open>AList.update k v d\<close>, \<open>d.get(k)\<close> is \<open>map_of d k\<close>, and \<open>dict(pairs)\<close>
  inserts the pairs from left to right.
\<close>

type_synonym ('k, 'v) dict = "('k \<times> 'v) list"

definition dict_of_pairs :: "('k \<times> 'v) list \<Rightarrow> ('k, 'v) dict" where
  "dict_of_pairs kvs = foldl (\<lambda>d (k, v). AList.update k v d) [] kvs"

text \<open>\<open>more_itertools.unique_everseen\<close>: keep the first occurrence of every element.\<close>

fun unique_seen :: "'a list \<Rightarrow> 'a list \<Rightarrow> 'a list" where
  "unique_seen seen [] = []"
| "unique_seen seen (x # xs) =
     (if x \<in> set seen then unique_seen seen xs else x # unique_seen (x # seen) xs)"

definition unique_everseen :: "'a list \<Rightarrow> 'a list" where
  "unique_everseen xs = unique_seen [] xs"

text \<open>
  \<open>int(s)\<close> on a string: surrounding whitespace is dropped, then an optional sign and
  decimal digits, where single underscores may separate digits.  The whitespace that
  \<open>int\<close> drops is not that of \<open>str.strip\<close>: below 127 it is the C set (tab to carriage
  return, and the space), so the separators \<open>\x1c\<close> to \<open>\x1f\<close> make \<open>int\<close> raise; the
  two spaces above 127 (\<open>\x85\<close>, \<open>\xa0\<close>) are dropped.
\<close>

definition int_isspace :: "char \<Rightarrow> bool" where
  "int_isspace c \<longleftrightarrow>
     (let n = (of_char c :: nat)
      in (9 \<le> n \<and> n \<le> 13) \<or> n = 32 \<or> n = 133 \<or> n = 160)"

definition is_digit :: "char \<Rightarrow> bool" where
  "is_digit c \<longleftrightarrow> 48 \<le> (of_char c :: nat) \<and> (of_char c :: nat) \<le> 57"

definition digit_val :: "char \<Rightarrow> int" where
  "digit_val c = int (of_char c) - 48"

definition digits_value :: "string \<Rightarrow> int" where
  "digits_value ds = foldl (\<lambda>n c. 10 * n + digit_val c) 0 ds"

fun digits_ok :: "string \<Rightarrow> bool" where
  "digits_ok [] = False"
| "digits_ok [c] = is_digit c"
| "digits_ok (c # d # cs) =
     (is_digit c \<and> (if d = CHR ''_'' then digits_ok cs else digits_ok (d # cs)))"

definition py_int :: "string \<Rightarrow> error + int" where
  "py_int s =
     (let t = rev (dropWhile int_isspace (rev (dropWhile int_isspace s)));
          neg = startswith t ''-'' \<and> t \<noteq> [];
          body = (if t \<noteq> [] \<and> (hd t = CHR ''-'' \<or> hd t = CHR ''+'') then tl t else t)
      in if digits_ok body
         then Inr ((if neg then - 1 else 1) * digits_value (filter is_digit body))
         else Inl ValueError)"

subsection \<open>The parsing-expression library\<close>

text \<open>
  The grammars of the source are built from the elements of the \<open>pyparsing\<close> library
  (version 3.1 or later, which has \<open>DelimitedList\<close>).  An element carries the characters
  it skips before matching (\<open>whiteChars\<close>, used when \<open>skipWhitespace\<close>), whether its own
  pre-parse step runs (\<open>callPreparse\<close>) and its matcher \<open>parseImpl\<close>, which maps the
  input and a position to the new position and the tokens, or fails with
  \<open>ParseException\<close>.  Tokens are strings, integers (after the conversion action of
  \<open>pyparsing.common.integer\<close>) and groups.
\<close>

datatype tok = S string | I int | G "tok list"

type_synonym presult = "error + nat \<times> tok list"

record pelem =
  whiteChars :: "char list"
  skipWhitespace :: bool
  callPreparse :: bool
  parseImpl :: "string \<Rightarrow> nat \<Rightarrow> presult"

definition DEFAULT_WHITE_CHARS :: "char list" where
  "DEFAULT_WHITE_CHARS = [SP, LF, TAB, CR]"

definition printables :: "char \<Rightarrow> bool" where
  "printables c \<longleftrightarrow> 33 \<le> (of_char c :: nat) \<and> (of_char c :: nat) \<le> 126"

definition alphas :: "char \<Rightarrow> bool" where
  "alphas c \<longleftrightarrow> (65 \<le> (of_char c :: nat) \<and> (of_char c :: nat) \<le> 90) \<or>
                 (97 \<le> (of_char c :: nat) \<and> (of_char c :: nat) \<le> 122)"

definition identChars :: "char \<Rightarrow> bool" where
  "identChars c \<longleftrightarrow> alphas c \<or> is_digit c \<or> c = CHR ''_'' \<or> c = CHR ''$''"

text \<open>\<open>ParserElement.preParse\<close> and \<open>ParserElement._parse\<close>.\<close>

definition preParse :: "pelem \<Rightarrow> string \<Rightarrow> nat \<Rightarrow> nat" where
  "preParse e instring loc =
     (if skipWhitespace e
      then loc + length (takeWhile (\<lambda>c. c \<in> set (whiteChars e)) (drop loc instring))
      else loc)"

definition pp_parse :: "pelem \<Rightarrow> string \<Rightarrow> nat \<Rightarrow> bool \<Rightarrow> presult" where
  "pp_parse e instring loc callPreParse =
     parseImpl e instring
       (if callPreParse \<and> callPreparse e then preParse e instring loc else loc)"

text \<open>A plain token (\<open>Token.__init__\<close>): the default whitespace, skipped.\<close>

definition token :: "(string \<Rightarrow> nat \<Rightarrow> presult) \<Rightarrow> pelem" where
  "token impl = \<lparr>whiteChars = DEFAULT_WHITE_CHARS, skipWhitespace = True,
                  callPreparse = True, parseImpl = impl\<rparr>"

definition Literal :: "string \<Rightarrow> pelem" where
  "Literal match_string = token (\<lambda>instring loc.
     if take (length match_string) (drop loc instring) = match_string
     then Inr (loc + length match_string, [S match_string])
     else Inl ParseException)"

text \<open>\<open>Word(chars)\<close>: one character of \<open>chars\<close> and the longest run of them after it.\<close>

definition Word :: "(char \<Rightarrow> bool) \<Rightarrow> pelem" where
  "Word chars = token (\<lambda>instring loc.
     case drop loc instring of
       [] \<Rightarrow> Inl ParseException
     | c # rest \<Rightarrow>
         if chars c
         then (let body = takeWhile chars rest
               in Inr (loc + 1 + length body, [S (c # body)]))
         else Inl ParseException)"

text \<open>\<open>pyparsing.common.integer\<close>: \<open>Word(nums)\<close> converted by \<open>int\<close>.\<close>

definition integer :: pelem where
  "integer = token (\<lambda>instring loc.
     case parseImpl (Word is_digit) instring loc of
       Inr (loc', [S ds]) \<Rightarrow> Inr (loc', [I (digits_value ds)])
     | Inr other \<Rightarrow> Inr other
     | Inl e \<Rightarrow> Inl e)"

text \<open>\<open>Keyword\<close>: the literal, neither preceded nor followed by an identifier character.\<close>

definition Keyword :: "string \<Rightarrow> pelem" where
  "Keyword match_string = token (\<lambda>instring loc.
     let matchLen = length match_string in
     if take matchLen (drop loc instring) = match_string
        \<and> (loc = 0 \<or> \<not> identChars (instring ! (loc - 1)))
        \<and> (length instring \<le> loc + matchLen \<or> \<not> identChars (instring ! (loc + matchLen)))
     then Inr (loc + matchLen, [S match_string])
     else Inl ParseException)"

text \<open>
  \<open>LineEnd\<close> skips blanks but not the newline; it matches a newline, and also the end of
  the input, where it returns the position after the end.
\<close>

definition LineEnd :: pelem where
  "LineEnd = \<lparr>whiteChars = [SP, TAB, CR], skipWhitespace = True, callPreparse = True,
               parseImpl = (\<lambda>instring loc.
                 if loc < length instring
                 then (if instring ! loc = LF then Inr (loc + 1, [S [LF]])
                       else Inl ParseException)
                 else if loc = length instring then Inr (loc + 1, [])
                 else Inl ParseException)\<rparr>"

text \<open>
  \<open>WordEnd\<close> skips nothing.  Inside the input it fails when the character at the position
  is printable or the one before is not (\<open>instring[loc - 1]\<close>, which at position 0 is
  Python's last character).
\<close>

definition WordEnd :: pelem where
  "WordEnd = \<lparr>whiteChars = DEFAULT_WHITE_CHARS, skipWhitespace = False, callPreparse = True,
               parseImpl = (\<lambda>instring loc.
                 let instrlen = length instring in
                 if instrlen > 0 \<and> loc < instrlen
                    \<and> (printables (instring ! loc)
                        \<or> \<not> printables (instring ! (if loc = 0 then instrlen - 1 else loc - 1)))
                 then Inl ParseException
                 else Inr (loc, []))\<rparr>"

text \<open>
  \<open>ParseElementEnhance.__init__\<close>: an element wrapping another takes over its whitespace
  settings and its \<open>callPreparse\<close>; the wrapped element is then parsed without pre-parse.
\<close>

definition enhance :: "pelem \<Rightarrow> (string \<Rightarrow> nat \<Rightarrow> presult) \<Rightarrow> pelem" where
  "enhance expr impl = \<lparr>whiteChars = whiteChars expr, skipWhitespace = skipWhitespace expr,
                         callPreparse = callPreparse expr, parseImpl = impl\<rparr>"

definition Suppress :: "pelem \<Rightarrow> pelem" where
  "Suppress expr = enhance expr (\<lambda>instring loc.
     case pp_parse expr instring loc False of
       Inl e \<Rightarrow> Inl e
     | Inr (loc', _) \<Rightarrow> Inr (loc', []))"

definition Group :: "pelem \<Rightarrow> pelem" where
  "Group expr = enhance expr (\<lambda>instring loc.
     case pp_parse expr instring loc False of
       Inl e \<Rightarrow> Inl e
     | Inr (loc', toks) \<Rightarrow> Inr (loc', [G toks]))"

text \<open>\<open>FollowedBy\<close> parses its element with pre-parse and consumes nothing.\<close>

definition FollowedBy :: "pelem \<Rightarrow> pelem" where
  "FollowedBy expr = enhance expr (\<lambda>instring loc.
     case pp_parse expr instring loc True of
       Inl e \<Rightarrow> Inl e
     | Inr _ \<Rightarrow> Inr (loc, []))"

text \<open>
  \<open>And\<close> (the \<open>+\<close> of the library) takes its whitespace settings from its first element,
  parses that one without pre-parse and every later one with it.
\<close>

fun and_rest :: "pelem list \<Rightarrow> string \<Rightarrow> nat \<Rightarrow> tok list \<Rightarrow> presult" where
  "and_rest [] instring loc resultlist = Inr (loc, resultlist)"
| "and_rest (e # es) instring loc resultlist =
     (case pp_parse e instring loc True of
        Inl err \<Rightarrow> Inl err
      | Inr (loc', exprtokens) \<Rightarrow> and_rest es instring loc' (resultlist @ exprtokens))"

definition And :: "pelem list \<Rightarrow> pelem" where
  "And exprs = \<lparr>whiteChars = whiteChars (hd exprs), skipWhitespace = skipWhitespace (hd exprs),
                 callPreparse = True,
                 parseImpl = (\<lambda>instring loc.
                   case pp_parse (hd exprs) instring loc False of
                     Inl err \<Rightarrow> Inl err
                   | Inr (loc', resultlist) \<Rightarrow> and_rest (tl exprs) instring loc' resultlist)\<rparr>"

text \<open>
  \<open>Or\<close> (the \<open>^\<close> of the library) keeps the default whitespace characters of a fresh
  element, skips whitespace when all alternatives do, and has \<open>callPreparse\<close> off
  (\<open>ParseExpression.__init__\<close>).  Its matcher pre-parses once when every alternative has
  \<open>callPreparse\<close>, tries each alternative there and takes the longest match, the first
  among equals.
\<close>

fun or_matches :: "pelem list \<Rightarrow> string \<Rightarrow> nat \<Rightarrow> (nat \<times> tok list) option \<Rightarrow> presult" where
  "or_matches [] instring loc best =
     (case best of None \<Rightarrow> Inl ParseException | Some r \<Rightarrow> Inr r)"
| "or_matches (e # es) instring loc best =
     (case pp_parse e instring loc True of
        Inl ParseException \<Rightarrow> or_matches es instring loc best
      | Inl err \<Rightarrow> Inl err
      | Inr (loc2, toks) \<Rightarrow>
          (case best of
             None \<Rightarrow> or_matches es instring loc (Some (loc2, toks))
           | Some (locb, _) \<Rightarrow>
               if locb < loc2 then or_matches es instring loc (Some (loc2, toks))
               else or_matches es instring loc best))"

definition Or_settings :: "pelem list \<Rightarrow> pelem" where
  "Or_settings exprs = \<lparr>whiteChars = DEFAULT_WHITE_CHARS,
                         skipWhitespace = list_all skipWhitespace exprs,
                         callPreparse = False,
                         parseImpl = (\<lambda>_ _. Inl ParseException)\<rparr>"

definition Or :: "pelem list \<Rightarrow> pelem" where
  "Or exprs = (Or_settings exprs)\<lparr>parseImpl := (\<lambda>instring loc.
     or_matches exprs instring
       (if list_all callPreparse exprs then preParse (Or_settings exprs) instring loc else loc)
       None)\<rparr>"

text \<open>
  \<open>SkipTo(expr)\<close>: from the position on, pre-parse and try \<open>expr\<close> (without pre-parse of
  its own) at each position up to the end of the input; the token is the text skipped.
  The counter bounds the positions left, as \<open>while tmploc <= instrlen\<close> does.
\<close>

fun skipto_loop :: "pelem \<Rightarrow> pelem \<Rightarrow> string \<Rightarrow> nat \<Rightarrow> nat \<Rightarrow> error + nat" where
  "skipto_loop self expr instring 0 tmploc = Inl ParseException"
| "skipto_loop self expr instring (Suc n) tmploc =
     (if length instring < tmploc then Inl ParseException
      else let tmploc' = (if callPreparse self then preParse self instring tmploc else tmploc) in
        (case pp_parse expr instring tmploc' False of
           Inr _ \<Rightarrow> Inr tmploc'
         | Inl ParseException \<Rightarrow> skipto_loop self expr instring n (tmploc' + 1)
         | Inl err \<Rightarrow> Inl err))"

definition SkipTo :: "pelem \<Rightarrow> pelem" where
  "SkipTo expr = enhance expr (\<lambda>instring loc.
     case skipto_loop (enhance expr (\<lambda>_ _. Inl ParseException)) expr instring
            (Suc (length instring) - loc) loc of
       Inl err \<Rightarrow> Inl err
     | Inr loc' \<Rightarrow> Inr (loc', [S (take (loc' - loc) (drop loc instring))]))"

text \<open>
  The repetition of \<open>OneOrMore\<close> and \<open>ZeroOrMore\<close> (\<open>_MultipleMatch.parseImpl\<close>): after the
  first match, parse again (with pre-parse) until a \<open>ParseException\<close>.  Python's
  \<open>while 1\<close> repeats forever when a round matches without moving on; that outcome is
  \<open>NonTermination\<close>.  No element of this section returns a position beyond one past the
  end of the input.
\<close>

function multiple_match :: "pelem \<Rightarrow> string \<Rightarrow> nat \<Rightarrow> tok list \<Rightarrow> presult" where
  "multiple_match expr instring loc tokens =
     (case pp_parse expr instring loc True of
        Inl ParseException \<Rightarrow> Inr (loc, tokens)
      | Inl err \<Rightarrow> Inl err
      | Inr (loc', tmptokens) \<Rightarrow>
          if loc < loc' \<and> loc' \<le> Suc (length instring)
          then multiple_match expr instring loc' (tokens @ tmptokens)
          else Inl NonTermination)"
  by pat_completeness auto
termination
  by (relation "measure (\<lambda>(expr, instring, loc, tokens). Suc (length instring) - loc)") auto

declare multiple_match.simps [simp del]

definition OneOrMore :: "pelem \<Rightarrow> pelem" where
  "OneOrMore expr = enhance expr (\<lambda>instring loc.
     case pp_parse expr instring loc True of
       Inl err \<Rightarrow> Inl err
     | Inr (loc', tokens) \<Rightarrow> multiple_match expr instring loc' tokens)"

definition ZeroOrMore :: "pelem \<Rightarrow> pelem" where
  "ZeroOrMore expr = enhance expr (\<lambda>instring loc.
     case parseImpl (OneOrMore expr) instring loc of
       Inl ParseException \<Rightarrow> Inr (loc, [])
     | r \<Rightarrow> r)"

text \<open>\<open>DelimitedList(expr, delim)\<close> is \<open>expr + ZeroOrMore(Suppress(delim) + expr)\<close>.\<close>

definition DelimitedList :: "pelem \<Rightarrow> pelem \<Rightarrow> pelem" where
  "DelimitedList expr delim =
     enhance (And [expr, ZeroOrMore (And [Suppress delim, expr])])
       (\<lambda>instring loc.
          pp_parse (And [expr, ZeroOrMore (And [Suppress delim, expr])]) instring loc False)"

text \<open>\<open>parseString\<close> expands tabs, parses from position 0 and returns the tokens.\<close>

definition parseString :: "pelem \<Rightarrow> string \<Rightarrow> error + tok list" where
  "parseString e instring =
     (case pp_parse e (expandtabs instring) 0 True of
        Inl err \<Rightarrow> Inl err
      | Inr (_, toks) \<Rightarrow> Inr toks)"

subsection \<open>Generic string formatting functions\<close>

text \<open>\<open>without_comments\<close>: \<open>re.sub\<close> of \<open>#.*$\<close> (multi-line mode) by the empty string.\<close>

fun drop_comments :: "bool \<Rightarrow> string \<Rightarrow> string" where
  "drop_comments in_comment [] = []"
| "drop_comments in_comment (c # cs) =
     (if c = LF then c # drop_comments False cs
      else if in_comment \<or> c = CHR ''#'' then drop_comments True cs
      else c # drop_comments False cs)"

definition without_comments :: "string \<Rightarrow> string" where
  "without_comments inp = drop_comments False inp"

text \<open>
  \<open>format_block\<close>: the spaces at the start of every line are removed (\<open>re.sub\<close> of
  \<open>^\ *\<close>, multi-line mode), then \<open>textwrap.indent\<close> puts four spaces before every line
  that is not blank.
\<close>

fun lstrip_lines :: "bool \<Rightarrow> string \<Rightarrow> string" where
  "lstrip_lines at_start [] = []"
| "lstrip_lines at_start (c # cs) =
     (if at_start \<and> c = SP then lstrip_lines True cs
      else c # lstrip_lines (c = LF) cs)"

definition textwrap_indent :: "string \<Rightarrow> string \<Rightarrow> string" where
  "textwrap_indent text prefix =
     concat (map (\<lambda>l. if py_strip l \<noteq> [] then prefix @ l else l) (splitlines True text))"

definition format_block :: "string \<Rightarrow> string" where
  "format_block inp = textwrap_indent (lstrip_lines True inp) ''    ''"

subsection \<open>Grammars\<close>

text \<open>
  \<open>block_expression\<close>: \<open>Suppress(... + start) + SkipTo(end)(key) + Suppress(end)\<close>, where
  \<open>... + start\<close> is \<open>SkipTo(start) + start\<close>.  Its only token is the block's content.
\<close>

definition block_expression :: "string \<Rightarrow> pelem" where
  "block_expression keyword =
     (let start = Keyword keyword;
          end' = And [Keyword ''end'', Keyword keyword]
      in And [Suppress (And [SkipTo start, start]), SkipTo end', Suppress end'])"

text \<open>\<open>dict(tokens.as_list())\<close> on groups of two strings.\<close>

fun group_pairs :: "tok list \<Rightarrow> error + (string \<times> string) list" where
  "group_pairs [] = Inr []"
| "group_pairs (t # ts) =
     (case t of
        G [S k, S v] \<Rightarrow>
          (case group_pairs ts of Inl e \<Rightarrow> Inl e | Inr kvs \<Rightarrow> Inr ((k, v) # kvs))
      | _ \<Rightarrow> Inl ValueError)"

definition parse_task_fields :: "string \<Rightarrow> error + (string, string) dict" where
  "parse_task_fields task_line =
     (let word = Word (\<lambda>c. printables c \<and> c \<noteq> CHR ''='');
          eq = Suppress (Literal ''='');
          field = Group (And [word, eq, word]);
          expr = And [Suppress (SkipTo (DelimitedList field WordEnd)),
                      DelimitedList field WordEnd]
      in case parseString expr task_line of
           Inl e \<Rightarrow> Inl e
         | Inr toks \<Rightarrow>
             (case group_pairs toks of
                Inl e \<Rightarrow> Inl e
              | Inr kvs \<Rightarrow> Inr (dict_of_pairs kvs)))"

text \<open>\<open>parse_index_series\<close>: an entry is an integer or a group \<open>start-stop\<close>.\<close>

fun index_entries :: "tok list \<Rightarrow> error + int list" where
  "index_entries [] = Inr []"
| "index_entries (t # ts) =
     (case t of
        I n \<Rightarrow> (case index_entries ts of Inl e \<Rightarrow> Inl e | Inr idxs \<Rightarrow> Inr (n # idxs))
      | G [I start, I stop] \<Rightarrow>
          (case index_entries ts of
             Inl e \<Rightarrow> Inl e
           | Inr idxs \<Rightarrow> Inr ([start..stop] @ idxs))
      | _ \<Rightarrow> Inl ValueError)"

definition parse_index_series :: "string \<Rightarrow> error + int list" where
  "parse_index_series inp =
     (let dash = Suppress (Literal ''-'');
          entry = Or [integer, Group (And [integer, dash, integer])];
          delim = Or [LineEnd, Literal '',''];
          expr = DelimitedList entry delim
      in case parseString expr inp of
           Inl e \<Rightarrow> Inl e
         | Inr toks \<Rightarrow>
             (case index_entries toks of
                Inl e \<Rightarrow> Inl e
              | Inr idxs \<Rightarrow> Inr (unique_everseen idxs)))"

subsection \<open>Functions acting on theory.dat data\<close>

fun theory_blocks ::
  "tok list \<Rightarrow> (string, (string, string) dict) dict
     \<Rightarrow> error + (string, (string, string) dict) dict" where
  "theory_blocks [] theory_dct = Inr theory_dct"
| "theory_blocks (b # bs) theory_dct =
     (case b of
        S block \<Rightarrow>
          (let word = Word printables;
               eq = Suppress (Literal ''='');
               field = Group (And [word, eq, word]);
               block_expr = And [word, DelimitedList field LineEnd]
           in case parseString block_expr block of
                Inl e \<Rightarrow> Inl e
              | Inr [] \<Rightarrow> Inl TypeError
              | Inr (S key # field_toks) \<Rightarrow>
                  (case group_pairs field_toks of
                     Inl e \<Rightarrow> Inl e
                   | Inr kvs \<Rightarrow>
                       theory_blocks bs (AList.update key (dict_of_pairs kvs) theory_dct))
              | Inr (_ # _) \<Rightarrow> Inl TypeError)
      | _ \<Rightarrow> Inl TypeError)"

definition parse_theory_dat :: "string \<Rightarrow> error + (string, (string, string) dict) dict" where
  "parse_theory_dat theory_dat =
     (case parseString (OneOrMore (block_expression ''level'')) (without_comments theory_dat) of
        Inl e \<Rightarrow> Inl e
      | Inr blocks \<Rightarrow> theory_blocks blocks [])"

subsection \<open>Libraries outside the repository\<close>

text \<open>
  Three computations are done by libraries that are not part of the repository; they are
  parameters of the model:
  \<^item> \<open>lib_float_int s\<close> is \<open>int(float(s))\<close> (floating-point parsing and truncation);
  \<^item> \<open>lib_inchi_column csv\<close> is the column \<open>parse_species_csv(csv)["inchi"]\<close>, in file
    order (\<open>pandas.read_csv\<close> with quote character \<open>'\<close>);
  \<^item> \<open>lib_rotational_bond_count chi\<close> is the torsion count used by
    \<open>sample_count_from_inchi\<close>.
\<close>

record library =
  lib_float_int :: "string \<Rightarrow> error + int"
  lib_inchi_column :: "string \<Rightarrow> error + string list"
  lib_rotational_bond_count :: "string \<Rightarrow> error + nat"

text \<open>The first exception of a list of results, or all the values.\<close>

fun collect :: "(error + 'a) list \<Rightarrow> error + 'a list" where
  "collect [] = Inr []"
| "collect (r # rs) =
     (case r of
        Inl e \<Rightarrow> Inl e
      | Inr x \<Rightarrow> (case collect rs of Inl e \<Rightarrow> Inl e | Inr xs \<Rightarrow> Inr (x # xs)))"

subsection \<open>Parse task information\<close>

datatype subtask_key = StrKey string | IntKey int | PairKey int int | ListKey "int list"

record Task =
  name :: string
  line :: string
  mem :: "int option"
  nprocs :: "int option"
  subtask_keys :: "subtask_key list"
  subtask_nworkers :: "int list"

definition SAMP_TASKS :: "string list" where
  "SAMP_TASKS = [''conf_samp'']"

definition parse_task_name :: "string \<Rightarrow> error + string" where
  "parse_task_name task_line =
     (case py_split task_line of
        [] \<Rightarrow> Inl IndexError
      | task_name # rest \<Rightarrow>
          if task_name \<in> set [''spc'', ''ts'']
          then (case rest of [] \<Rightarrow> Inl IndexError | second # _ \<Rightarrow> Inr second)
          else Inr task_name)"

text \<open>
  \<open>int(float(theory_dct.get(runlvl).get(key)))\<close> after
  \<open>theory_dct = parse_theory_dat(file_dct.get("theory.dat"))\<close>: the three lines that
  \<open>parse_task_memory\<close> and \<open>parse_task_nprocs\<close> share.
\<close>

definition theory_value ::
  "library \<Rightarrow> (string, string) dict \<Rightarrow> string \<Rightarrow> string \<Rightarrow> error + int" where
  "theory_value lib file_dct runlvl key =
     (case map_of file_dct ''theory.dat'' of
        None \<Rightarrow> Inl TypeError
      | Some theory_dat \<Rightarrow>
          (case parse_theory_dat theory_dat of
             Inl e \<Rightarrow> Inl e
           | Inr theory_dct \<Rightarrow>
               (case map_of theory_dct runlvl of
                  None \<Rightarrow> Inl AttributeError
                | Some level \<Rightarrow>
                    (case map_of level key of
                       None \<Rightarrow> Inl TypeError
                     | Some v \<Rightarrow> lib_float_int lib v))))"

definition parse_task_memory ::
  "library \<Rightarrow> string \<Rightarrow> (string, string) dict \<Rightarrow> error + int option" where
  "parse_task_memory lib task_line file_dct =
     (case parse_task_fields task_line of
        Inl e \<Rightarrow> Inl e
      | Inr field_dct \<Rightarrow>
          (case map_of field_dct ''runlvl'' of
             None \<Rightarrow> Inr None
           | Some runlvl \<Rightarrow>
               (case theory_value lib file_dct runlvl ''mem'' of
                  Inl e \<Rightarrow> Inl e
                | Inr m \<Rightarrow> Inr (Some m))))"

definition parse_task_nprocs ::
  "library \<Rightarrow> string \<Rightarrow> (string, string) dict \<Rightarrow> error + int option" where
  "parse_task_nprocs lib task_line file_dct =
     (case parse_task_fields task_line of
        Inl e \<Rightarrow> Inl e
      | Inr field_dct \<Rightarrow>
          (case (case map_of field_dct ''nprocs'' of
                   None \<Rightarrow> Inr None
                 | Some v \<Rightarrow>
                     (case lib_float_int lib v of Inl e \<Rightarrow> Inl e | Inr n \<Rightarrow> Inr (Some n))) of
             Inl e \<Rightarrow> Inl e
           | Inr nprocs0 \<Rightarrow>
               (case map_of field_dct ''runlvl'' of
                  None \<Rightarrow> Inr nprocs0
                | Some runlvl \<Rightarrow>
                    (case theory_value lib file_dct runlvl ''nprocs'' of
                       Inl e \<Rightarrow> Inl e
                     | Inr n \<Rightarrow> Inr (Some n)))))"

subsection \<open>Sample-count estimator\<close>

text \<open>
  \<open>sample_count_from_inchi\<close>.  The torsion count comes from the chemistry library:
  \<open>len(automol.graph.rotational_bond_keys(automol.amchi.graph(chi, stereo=False),
  with_ch_rotors=False))\<close>.  That library is not part of the repository, so the count is
  the parameter \<open>rotational_bond_count\<close> (it may raise on a malformed identifier).
\<close>

definition sample_count_from_inchi ::
  "(string \<Rightarrow> error + nat) \<Rightarrow> string \<Rightarrow> int \<Rightarrow> int \<Rightarrow> int \<Rightarrow> int \<Rightarrow> error + int" where
  "sample_count_from_inchi rotational_bond_count chi param_a param_b param_c param_d =
     (case rotational_bond_count chi of
        Inl e \<Rightarrow> Inl e
      | Inr ntors \<Rightarrow>
          if ntors = 0 then Inr 1
          else Inr (min (param_a + param_b * param_c ^ ntors) param_d))"

definition parse_subtasks_nworkers ::
  "library \<Rightarrow> string \<Rightarrow> (string, string) dict \<Rightarrow> nat \<Rightarrow> error + int list" where
  "parse_subtasks_nworkers lib task_line file_dct nsub =
     (if startswith task_line ''spc''
      then
        (case parse_task_name task_line of
           Inl e \<Rightarrow> Inl e
         | Inr task_name \<Rightarrow>
             (case parse_task_fields task_line of
                Inl e \<Rightarrow> Inl e
              | Inr field_dct \<Rightarrow>
                  if task_name \<in> set SAMP_TASKS
                     \<or> startswith (case map_of field_dct ''cnf_range'' of
                                     None \<Rightarrow> [] | Some v \<Rightarrow> v) ''n''
                  then
                    (case py_int (drop 1 (case map_of field_dct ''cnf_range'' of
                                            None \<Rightarrow> ''n100'' | Some v \<Rightarrow> v)) of
                       Inl e \<Rightarrow> Inl e
                     | Inr nmax \<Rightarrow>
                         (case (case map_of file_dct ''species.csv'' of
                                  None \<Rightarrow> Inl LibraryError
                                | Some species_csv \<Rightarrow> lib_inchi_column lib species_csv) of
                            Inl e \<Rightarrow> Inl e
                          | Inr inchis \<Rightarrow>
                              (case collect (map (\<lambda>chi. sample_count_from_inchi
                                       (lib_rotational_bond_count lib) chi 12 1 3 nmax) inchis) of
                                 Inl e \<Rightarrow> Inl e
                               | Inr nsamp_lst \<Rightarrow> Inr (map (\<lambda>n. max (n - 1) 1) nsamp_lst))))
                  else Inr (replicate nsub 1)))
      else Inr (replicate nsub 1))"

subsection \<open>Functions acting on run.dat data\<close>

text \<open>The entries of the PES block: groups of a PES index and the channel text.\<close>

fun pes_entries :: "tok list \<Rightarrow> error + subtask_key list" where
  "pes_entries [] = Inr []"
| "pes_entries (t # ts) =
     (case t of
        G [I pidx, S channels] \<Rightarrow>
          (case parse_index_series channels of
             Inl e \<Rightarrow> Inl e
           | Inr cidxs \<Rightarrow>
               (case pes_entries ts of
                  Inl e \<Rightarrow> Inl e
                | Inr keys \<Rightarrow> Inr (map (PairKey pidx) cidxs @ keys)))
      | _ \<Rightarrow> Inl TypeError)"

text \<open>
  \<open>subtask_keys_from_run_dict\<close>.  For a subtask type other than \<open>None\<close>, \<open>spc\<close> and
  \<open>pes\<close> the Python function falls off its end and returns \<open>None\<close>.
\<close>

definition subtask_keys_from_run_dict ::
  "(string, string) dict \<Rightarrow> string option \<Rightarrow> subtask_key
     \<Rightarrow> error + subtask_key list option" where
  "subtask_keys_from_run_dict run_dct subtask_type all_key =
     (case subtask_type of
        None \<Rightarrow> Inr (Some [all_key])
      | Some st \<Rightarrow>
          if st = ''spc''
          then (case map_of run_dct ''spc'' of
                  None \<Rightarrow> Inl AttributeError
                | Some spc_block \<Rightarrow>
                    (case parse_index_series spc_block of
                       Inl e \<Rightarrow> Inl e
                     | Inr idxs \<Rightarrow> Inr (Some (map IntKey idxs))))
          else if st = ''pes''
          then (case map_of run_dct ''pes'' of
                  None \<Rightarrow> Inl AttributeError
                | Some pes_block \<Rightarrow>
                    (let colon = Suppress (Literal '':'');
                         before_line_end = FollowedBy LineEnd;
                         entry = Group (And [integer, colon, SkipTo before_line_end]);
                         expr = DelimitedList entry LineEnd
                     in case parseString expr pes_block of
                          Inl e \<Rightarrow> Inl e
                        | Inr toks \<Rightarrow>
                            (case pes_entries toks of
                               Inl e \<Rightarrow> Inl e
                             | Inr keys \<Rightarrow> Inr (Some (unique_everseen keys)))))
          else Inr None)"

definition task_lines_from_run_dict ::
  "(string, string) dict \<Rightarrow> string \<Rightarrow> string option \<Rightarrow> error + string list" where
  "task_lines_from_run_dict run_dct task_type subtask_type =
     (case map_of run_dct task_type of
        None \<Rightarrow> Inl AttributeError
      | Some block \<Rightarrow>
          (let lines = map py_strip (splitlines False block) in
           if task_type = ''els''
           then (if subtask_type \<in> set [Some ''spc'', Some ''pes'']
                 then Inr (filter (\<lambda>l. startswith l
                             (if subtask_type = Some ''pes'' then ''ts'' else ''spc'')) lines)
                 else Inl AssertionError)
           else Inr lines))"

text \<open>
  \<open>determine_task_list\<close>: the keys are computed once; each task line gives a Task whose
  fields are evaluated in the order of the constructor call.
\<close>

definition task_of_line ::
  "library \<Rightarrow> (string, string) dict \<Rightarrow> subtask_key list option \<Rightarrow> string \<Rightarrow> error + Task" where
  "task_of_line lib file_dct keys task_line =
     (case parse_task_name task_line of
        Inl e \<Rightarrow> Inl e
      | Inr task_name \<Rightarrow>
     (case parse_task_memory lib task_line file_dct of
        Inl e \<Rightarrow> Inl e
      | Inr task_mem \<Rightarrow>
     (case parse_task_nprocs lib task_line file_dct of
        Inl e \<Rightarrow> Inl e
      | Inr task_nprocs \<Rightarrow>
     (case keys of
        None \<Rightarrow> Inl TypeError
      | Some ks \<Rightarrow>
     (case parse_subtasks_nworkers lib task_line file_dct (length ks) of
        Inl e \<Rightarrow> Inl e
      | Inr nworkers \<Rightarrow>
          Inr \<lparr>name = task_name, line = task_line, mem = task_mem, nprocs = task_nprocs,
               subtask_keys = ks, subtask_nworkers = nworkers\<rparr>)))))"

definition determine_task_list ::
  "library \<Rightarrow> (string, string) dict \<Rightarrow> (string, string) dict \<Rightarrow> string \<Rightarrow> string option
     \<Rightarrow> subtask_key \<Rightarrow> error + Task list" where
  "determine_task_list lib run_dct file_dct task_type key_type all_key =
     (case subtask_keys_from_run_dict run_dct key_type all_key of
        Inl e \<Rightarrow> Inl e
      | Inr keys \<Rightarrow>
          (case task_lines_from_run_dict run_dct task_type key_type of
             Inl e \<Rightarrow> Inl e
           | Inr task_lines \<Rightarrow> collect (map (task_of_line lib file_dct keys) task_lines)))"

subsection \<open>Integers as text\<close>

text \<open>\<open>str(n)\<close> and \<open>"{:02d}".format(n)\<close> for an integer \<open>n\<close>.\<close>

fun dec_nat :: "nat \<Rightarrow> string" where
  "dec_nat n = (if n < 10 then [char_of (48 + n)]
                else dec_nat (n div 10) @ [char_of (48 + n mod 10)])"

declare dec_nat.simps [simp del]

definition str_int :: "int \<Rightarrow> string" where
  "str_int i = (if i < 0 then CHR ''-'' # dec_nat (nat (- i)) else dec_nat (nat i))"

definition id_str :: "int \<Rightarrow> string" where
  "id_str i = replicate (2 - length (str_int i)) (CHR ''0'') @ str_int i"

definition join_with :: "string \<Rightarrow> string list \<Rightarrow> string" where
  "join_with sep xs = (case xs of [] \<Rightarrow> [] | x # rest \<Rightarrow> x @ concat (map (\<lambda>y. sep @ y) rest))"

subsection \<open>Paths and the file system\<close>

text \<open>
  A \<open>pathlib\<close> path (POSIX flavour) is its root (\<open>''''\<close>, \<open>/\<close> or \<open>//\<close>) and its parts.
  \<open>Path(s)\<close> splits at \<open>/\<close> and drops empty parts and \<open>.\<close>; \<open>p / s\<close> is \<open>Path(s)\<close> when \<open>s\<close>
  is absolute and appends its parts otherwise.
\<close>

datatype path = Path (path_root: string) (path_parts: "string list")

fun split_on :: "char \<Rightarrow> string \<Rightarrow> string \<Rightarrow> string list" where
  "split_on sep cur [] = [rev cur]"
| "split_on sep cur (c # cs) =
     (if c = sep then rev cur # split_on sep [] cs else split_on sep (c # cur) cs)"

definition path_of :: "string \<Rightarrow> path" where
  "path_of s =
     Path (if startswith s ''//'' \<and> \<not> startswith s ''///'' then ''//''
           else if startswith s ''/'' then ''/'' else [])
          (filter (\<lambda>p. p \<noteq> [] \<and> p \<noteq> ''.'') (split_on (CHR ''/'') [] s))"

definition joinpath :: "path \<Rightarrow> string \<Rightarrow> path" where
  "joinpath p s =
     (if path_root (path_of s) \<noteq> [] then path_of s
      else Path (path_root p) (path_parts p @ path_parts (path_of s)))"

definition parent :: "path \<Rightarrow> path" where
  "parent p = Path (path_root p) (butlast (path_parts p))"

definition str_path :: "path \<Rightarrow> string" where
  "str_path p =
     (if path_root p = [] \<and> path_parts p = [] then ''.''
      else path_root p @ join_with ''/'' (path_parts p))"

text \<open>
  The YAML documents of the program, as the node graph that \<open>yaml.safe_dump\<close> emits and
  \<open>yaml.safe_load\<close> composes: null, integer and string scalars, sequences, and mappings
  with string keys.  The text between the two is not modelled: a file written by
  \<open>safe_dump\<close> holds the document.
\<close>

datatype yaml = YNull | YInt int | YStr string | YSeq "yaml list" | YMap "(string \<times> yaml) list"

text \<open>
  The subtask table (\<open>pandas.DataFrame(row_dcts)\<close>) is the list of its row dictionaries:
  a row maps the column \<open>task\<close> to the task name and each subtask key to a path.
\<close>

datatype cell = CellName string | CellPath path

datatype content =
    Text string
  | Yaml yaml
  | Csv "(subtask_key, cell) dict list"

datatype node = Dir | File content

text \<open>
  The file system maps a path to a directory or a file.  A path without parts (the root,
  or the working directory for a relative path) is a directory.  Symbolic links and
  \<open>..\<close> are not interpreted.
\<close>

type_synonym filesystem = "path \<Rightarrow> node option"

definition is_dir :: "filesystem \<Rightarrow> path \<Rightarrow> bool" where
  "is_dir fs p \<longleftrightarrow> path_parts p = [] \<or> fs p = Some Dir"

definition path_exists :: "filesystem \<Rightarrow> path \<Rightarrow> bool" where
  "path_exists fs p \<longleftrightarrow> path_parts p = [] \<or> fs p \<noteq> None"

definition os_mkdir :: "filesystem \<Rightarrow> path \<Rightarrow> error + filesystem" where
  "os_mkdir fs p =
     (if path_exists fs p then Inl FileExistsError
      else if is_dir fs (parent p) then Inr (fs(p \<mapsto> Dir))
      else if path_exists fs (parent p) then Inl NotADirectoryError
      else Inl FileNotFoundError)"

text \<open>\<open>Path.mkdir(parents, exist_ok)\<close>, as \<open>pathlib\<close> writes it.\<close>

function mkdir :: "filesystem \<Rightarrow> path \<Rightarrow> bool \<Rightarrow> bool \<Rightarrow> error + filesystem" where
  "mkdir fs p parents exist_ok =
     (case os_mkdir fs p of
        Inr fs' \<Rightarrow> Inr fs'
      | Inl FileNotFoundError \<Rightarrow>
          if \<not> parents \<or> parent p = p then Inl FileNotFoundError
          else (case mkdir fs (parent p) True True of
                  Inl e \<Rightarrow> Inl e
                | Inr fs' \<Rightarrow> mkdir fs' p False exist_ok)
      | Inl e \<Rightarrow> if \<not> exist_ok \<or> \<not> is_dir fs p then Inl e else Inr fs)"
  by pat_completeness auto
termination
proof (relation "measure (\<lambda>(fs, p, parents, exist_ok).
          2 * length (path_parts p) + (if parents then 1 else 0))", goal_cases)
  case 1
  then show ?case by simp
next
  case (2 fs p parents exist_ok)
  then have ne: "path_parts p \<noteq> []"
    by (cases p) (auto simp: parent_def)
  then have "length (butlast (path_parts p)) < length (path_parts p)"
    by (simp add: length_greater_0_conv)
  then show ?case by (simp add: parent_def)
next
  case (3 fs p parents exist_ok e fs')
  then show ?case by auto
qed

declare mkdir.simps [simp del]

definition write_file :: "filesystem \<Rightarrow> path \<Rightarrow> content \<Rightarrow> error + filesystem" where
  "write_file fs p c =
     (if is_dir fs p then Inl IsADirectoryError
      else if is_dir fs (parent p) then Inr (fs(p \<mapsto> File c))
      else if path_exists fs (parent p) then Inl NotADirectoryError
      else Inl FileNotFoundError)"

definition read_file :: "filesystem \<Rightarrow> path \<Rightarrow> error + content" where
  "read_file fs p =
     (if is_dir fs p then Inl IsADirectoryError
      else case fs p of
             Some (File c) \<Rightarrow> Inr c
           | _ \<Rightarrow> if path_exists fs (parent p) \<and> \<not> is_dir fs (parent p)
                  then Inl NotADirectoryError else Inl FileNotFoundError)"

text \<open>\<open>Path.read_text\<close>: a file of the model that holds a document has no text.\<close>

definition read_text :: "filesystem \<Rightarrow> path \<Rightarrow> error + string" where
  "read_text fs p =
     (case read_file fs p of
        Inl e \<Rightarrow> Inl e
      | Inr (Text s) \<Rightarrow> Inr s
      | Inr _ \<Rightarrow> Inl LibraryError)"

subsection \<open>Task read/write\<close>

text \<open>
  \<open>write_task_list\<close>: \<open>dataclasses.asdict\<close> keeps lists and tuples, and \<open>yaml.safe_dump\<close>
  represents both a list and a tuple as a sequence, \<open>None\<close> as null, and a dictionary as
  a mapping with sorted keys.
\<close>

fun key_node :: "subtask_key \<Rightarrow> yaml" where
  "key_node (StrKey s) = YStr s"
| "key_node (IntKey i) = YInt i"
| "key_node (PairKey p c) = YSeq [YInt p, YInt c]"
| "key_node (ListKey xs) = YSeq (map YInt xs)"

definition opt_int_node :: "int option \<Rightarrow> yaml" where
  "opt_int_node v = (case v of None \<Rightarrow> YNull | Some i \<Rightarrow> YInt i)"

definition task_node :: "Task \<Rightarrow> yaml" where
  "task_node t =
     YMap [(''line'', YStr (line t)),
           (''mem'', opt_int_node (mem t)),
           (''name'', YStr (name t)),
           (''nprocs'', opt_int_node (nprocs t)),
           (''subtask_keys'', YSeq (map key_node (subtask_keys t))),
           (''subtask_nworkers'', YSeq (map YInt (subtask_nworkers t)))]"

definition write_task_list :: "Task list \<Rightarrow> path \<Rightarrow> filesystem \<Rightarrow> error + filesystem" where
  "write_task_list yaml_tasks p fs = write_file fs p (Yaml (YSeq (map task_node yaml_tasks)))"

text \<open>
  \<open>read_task_list\<close>: \<open>yaml.safe_load\<close> builds \<open>None\<close>, integers, strings, lists and
  dictionaries; \<open>Task(**d)\<close> needs exactly the six field names.  Python would store any
  value in a field; the record of the model is typed, so a value of another type than
  the field's is a \<open>TypeError\<close> here.
\<close>

fun node_ints :: "yaml list \<Rightarrow> error + int list" where
  "node_ints [] = Inr []"
| "node_ints (n # ns) =
     (case n of
        YInt i \<Rightarrow> (case node_ints ns of Inl e \<Rightarrow> Inl e | Inr xs \<Rightarrow> Inr (i # xs))
      | _ \<Rightarrow> Inl TypeError)"

definition node_key :: "yaml \<Rightarrow> error + subtask_key" where
  "node_key n =
     (case n of
        YStr s \<Rightarrow> Inr (StrKey s)
      | YInt i \<Rightarrow> Inr (IntKey i)
      | YSeq ns \<Rightarrow> (case node_ints ns of Inl e \<Rightarrow> Inl e | Inr xs \<Rightarrow> Inr (ListKey xs))
      | _ \<Rightarrow> Inl TypeError)"

definition node_opt_int :: "yaml \<Rightarrow> error + int option" where
  "node_opt_int n =
     (case n of YNull \<Rightarrow> Inr None | YInt i \<Rightarrow> Inr (Some i) | _ \<Rightarrow> Inl TypeError)"

definition node_task :: "yaml \<Rightarrow> error + Task" where
  "node_task n =
     (case n of
        YMap d \<Rightarrow>
          if set (map fst d) = set [''name'', ''line'', ''mem'', ''nprocs'', ''subtask_keys'',
                                    ''subtask_nworkers'']
          then
            (case (map_of d ''name'', map_of d ''line'', map_of d ''mem'', map_of d ''nprocs'',
                   map_of d ''subtask_keys'', map_of d ''subtask_nworkers'') of
               (Some (YStr nm), Some (YStr l), Some m, Some np, Some (YSeq ks), Some (YSeq ws)) \<Rightarrow>
                 (case node_opt_int m of Inl e \<Rightarrow> Inl e | Inr m' \<Rightarrow>
                 (case node_opt_int np of Inl e \<Rightarrow> Inl e | Inr np' \<Rightarrow>
                 (case collect (map node_key ks) of Inl e \<Rightarrow> Inl e | Inr ks' \<Rightarrow>
                 (case node_ints ws of Inl e \<Rightarrow> Inl e | Inr ws' \<Rightarrow>
                    Inr \<lparr>name = nm, line = l, mem = m', nprocs = np',
                         subtask_keys = ks', subtask_nworkers = ws'\<rparr>))))
             | _ \<Rightarrow> Inl TypeError)
          else Inl TypeError
      | _ \<Rightarrow> Inl TypeError)"

definition read_task_list :: "path \<Rightarrow> filesystem \<Rightarrow> error + Task list" where
  "read_task_list p fs =
     (case read_file fs p of
        Inl e \<Rightarrow> Inl e
      | Inr (Yaml (YSeq ns)) \<Rightarrow> collect (map node_task ns)
      | Inr (Yaml _) \<Rightarrow> Inl TypeError
      | Inr _ \<Rightarrow> Inl LibraryError)"

subsection \<open>Functions acting on the run directory as a whole\<close>

fun read_files :: "path \<Rightarrow> string list \<Rightarrow> filesystem \<Rightarrow> error + (string, string) dict" where
  "read_files inp_dir [] fs = Inr []"
| "read_files inp_dir (n # ns) fs =
     (case read_text fs (joinpath inp_dir n) of
        Inl e \<Rightarrow> Inl e
      | Inr contents \<Rightarrow>
          (case read_files inp_dir ns fs of
             Inl e \<Rightarrow> Inl e
           | Inr file_dct \<Rightarrow> Inr ((n, contents) # file_dct)))"

definition read_input_files :: "path \<Rightarrow> filesystem \<Rightarrow> error + (string, string) dict" where
  "read_input_files run_dir fs =
     read_files (joinpath run_dir ''inp'')
       [''run.dat'', ''theory.dat'', ''models.dat'', ''mechanism.dat'', ''species.csv''] fs"

fun write_files :: "path \<Rightarrow> (string, string) dict \<Rightarrow> filesystem \<Rightarrow> error + filesystem" where
  "write_files inp_dir [] fs = Inr fs"
| "write_files inp_dir ((n, contents) # file_dct) fs =
     (case write_file fs (joinpath inp_dir n) (Text contents) of
        Inl e \<Rightarrow> Inl e
      | Inr fs' \<Rightarrow> write_files inp_dir file_dct fs')"

definition write_input_files ::
  "path \<Rightarrow> (string, string) dict \<Rightarrow> filesystem \<Rightarrow> error + filesystem" where
  "write_input_files run_dir file_dct fs =
     (case mkdir fs (joinpath run_dir ''inp'') False True of
        Inl e \<Rightarrow> Inl e
      | Inr fs' \<Rightarrow> write_files (joinpath run_dir ''inp'') file_dct fs')"

subsection \<open>The run.dat dictionary\<close>

definition parse_block :: "string \<Rightarrow> string \<Rightarrow> error + string" where
  "parse_block run_dat keyword =
     (case parseString (block_expression keyword) run_dat of
        Inl e \<Rightarrow> Inl e
      | Inr [S block] \<Rightarrow> Inr (format_block block)
      | Inr _ \<Rightarrow> Inl TypeError)"

definition parse_run_dat :: "string \<Rightarrow> error + (string, string) dict" where
  "parse_run_dat run_dat =
     collect (map (\<lambda>keyword.
                case parse_block (without_comments run_dat) keyword of
                  Inl e \<Rightarrow> Inl e
                | Inr block \<Rightarrow> Inr (keyword, block))
              [''input'', ''pes'', ''spc'', ''els'', ''thermo'', ''kin''])"

definition form_run_dat :: "(string, string) dict \<Rightarrow> string" where
  "form_run_dat run_dct =
     concat (map (\<lambda>key. case map_of run_dct key of
                          None \<Rightarrow> []
                        | Some block \<Rightarrow>
                            key @ [LF] @ format_block block @ [LF] @ ''end '' @ key @ [LF, LF])
               [''input'', ''spc'', ''pes'', ''els'', ''thermo'', ''kin''])"

text \<open>
  \<open>_extract_path\<close> of \<open>filesystem_paths_from_run_dict\<close>.  The expression
  \<open>Suppress(... + Literal(key_prefix) + Literal("=")) + word("path")\<close> is
  \<open>SkipTo(Literal(key_prefix))\<close>, the literal, and \<open>=\<close>, all suppressed, then the word.
\<close>

definition extract_path :: "(string, string) dict \<Rightarrow> string \<Rightarrow> error + string" where
  "extract_path run_dct key =
     (case map_of run_dct ''input'' of
        None \<Rightarrow> Inl TypeError
      | Some inp_block \<Rightarrow>
          (let word = Word (\<lambda>c. printables c \<and> c \<noteq> CHR ''='');
               field = Suppress (And [SkipTo (Literal (key @ ''_prefix'')),
                                      Literal (key @ ''_prefix''), Literal ''='']);
               expr = And [field, word]
           in case parseString expr (without_comments inp_block) of
                Inl e \<Rightarrow> Inl e
              | Inr [S p] \<Rightarrow> Inr p
              | Inr _ \<Rightarrow> Inl TypeError))"

definition filesystem_paths_from_run_dict ::
  "(string, string) dict \<Rightarrow> string option \<Rightarrow> string option \<Rightarrow> error + string \<times> string" where
  "filesystem_paths_from_run_dict run_dct save_path run_path =
     (case (case save_path of None \<Rightarrow> extract_path run_dct ''save'' | Some p \<Rightarrow> Inr p) of
        Inl e \<Rightarrow> Inl e
      | Inr save_path' \<Rightarrow>
          (case (case run_path of None \<Rightarrow> extract_path run_dct ''run'' | Some p \<Rightarrow> Inr p) of
             Inl e \<Rightarrow> Inl e
           | Inr run_path' \<Rightarrow> Inr (save_path', run_path')))"

subsection \<open>Setting up a subtask group\<close>

text \<open>\<open>_subtask_directory\<close> and \<open>_subtask_block\<close> of \<open>setup_subtask_group\<close>.\<close>

fun subtask_directory :: "subtask_key \<Rightarrow> error + string" where
  "subtask_directory (PairKey p c) = Inr (join_with ''_'' (map id_str [p, c]))"
| "subtask_directory (IntKey i) = Inr (id_str i)"
| "subtask_directory (StrKey s) = Inr s"
| "subtask_directory (ListKey xs) = Inl AssertionError"

fun subtask_block :: "subtask_key \<Rightarrow> error + string" where
  "subtask_block (PairKey pes_idx chn_idx) = Inr (str_int pes_idx @ '': '' @ str_int chn_idx)"
| "subtask_block (IntKey i) = Inr (str_int i)"
| "subtask_block (StrKey s) = Inl AssertionError"
| "subtask_block (ListKey xs) = Inl AssertionError"

text \<open>
  The input file dictionary of one subtask (the lines from \<open>subtask_run_dct = ...\<close> to
  \<open>subtask_file_dct = ...\<close>).  With \<open>key_type = None\<close> the block would be stored under
  the key \<open>None\<close>, which \<open>form_run_dat\<close> never reads.
\<close>

definition subtask_file_dct ::
  "(string, string) dict \<Rightarrow> (string, string) dict \<Rightarrow> string option \<Rightarrow> subtask_key
     \<Rightarrow> subtask_key \<Rightarrow> error + (string, string) dict" where
  "subtask_file_dct task_run_dct file_dct key_type all_key key =
     (case (if key \<noteq> all_key
            then (case subtask_block key of
                    Inl e \<Rightarrow> Inl e
                  | Inr block \<Rightarrow>
                      Inr (case key_type of
                             None \<Rightarrow> task_run_dct
                           | Some kt \<Rightarrow> AList.update kt block task_run_dct))
            else Inr task_run_dct) of
        Inl e \<Rightarrow> Inl e
      | Inr subtask_run_dct \<Rightarrow>
          Inr (AList.update ''run.dat'' (form_run_dat subtask_run_dct) file_dct))"

text \<open>The loop over the subtask keys of one task.\<close>

fun setup_keys ::
  "(string, string) dict \<Rightarrow> (string, string) dict \<Rightarrow> string option \<Rightarrow> subtask_key \<Rightarrow> path
     \<Rightarrow> subtask_key list \<Rightarrow> (subtask_key, cell) dict \<Rightarrow> filesystem
     \<Rightarrow> error + (subtask_key, cell) dict \<times> filesystem" where
  "setup_keys task_run_dct file_dct key_type all_key task_path [] row_dct fs = Inr (row_dct, fs)"
| "setup_keys task_run_dct file_dct key_type all_key task_path (key # keys) row_dct fs =
     (case subtask_directory key of
        Inl e \<Rightarrow> Inl e
      | Inr d \<Rightarrow>
     (case mkdir fs (joinpath task_path d) True True of
        Inl e \<Rightarrow> Inl e
      | Inr fs1 \<Rightarrow>
     (case subtask_file_dct task_run_dct file_dct key_type all_key key of
        Inl e \<Rightarrow> Inl e
      | Inr sfd \<Rightarrow>
     (case write_input_files (joinpath task_path d) sfd fs1 of
        Inl e \<Rightarrow> Inl e
      | Inr fs2 \<Rightarrow>
          setup_keys task_run_dct file_dct key_type all_key task_path keys
            (AList.update key (CellPath (joinpath task_path d)) row_dct) fs2))))"

text \<open>The path of the directory of a task, and the loop over the tasks.\<close>

definition task_directory :: "path \<Rightarrow> string \<Rightarrow> nat \<Rightarrow> string \<Rightarrow> path" where
  "task_directory out_path group_id task_key task_name =
     joinpath out_path (group_id @ ''_'' @ id_str (int task_key) @ ''_'' @ task_name)"

fun setup_tasks ::
  "(string, string) dict \<Rightarrow> (string, string) dict \<Rightarrow> string \<Rightarrow> string option \<Rightarrow> string
     \<Rightarrow> path \<Rightarrow> subtask_key \<Rightarrow> nat \<Rightarrow> Task list \<Rightarrow> filesystem
     \<Rightarrow> error + (subtask_key, cell) dict list \<times> filesystem" where
  "setup_tasks run_dct file_dct task_type key_type group_id out_path all_key task_key [] fs
     = Inr ([], fs)"
| "setup_tasks run_dct file_dct task_type key_type group_id out_path all_key task_key (task # tasks) fs =
     (case setup_keys
             (AList.update task_type (line task)
                (filter (\<lambda>(k, v). k \<in> set (''input'' # (case key_type of
                                                           None \<Rightarrow> [''pes'', ''spc'']
                                                         | Some kt \<Rightarrow> [kt]))) run_dct))
             file_dct key_type all_key
             (task_directory out_path group_id task_key (name task))
             (subtask_keys task) [(StrKey ''task'', CellName (name task))] fs of
        Inl e \<Rightarrow> Inl e
      | Inr (row_dct, fs1) \<Rightarrow>
          (case setup_tasks run_dct file_dct task_type key_type group_id out_path all_key
                  (Suc task_key) tasks fs1 of
             Inl e \<Rightarrow> Inl e
           | Inr (row_dcts, fs2) \<Rightarrow> Inr (row_dct # row_dcts, fs2)))"

datatype group_id = GidInt int | GidStr string

datatype group_result = Prefix string | DataFrame "(subtask_key, cell) dict list"

definition setup_subtask_group ::
  "library \<Rightarrow> (string, string) dict \<Rightarrow> (string, string) dict \<Rightarrow> string \<Rightarrow> string option
     \<Rightarrow> group_id option \<Rightarrow> path \<Rightarrow> filesystem \<Rightarrow> error + group_result \<times> filesystem" where
  "setup_subtask_group lib run_dct file_dct task_type key_type group_id out_path fs =
     (case group_id of
        None \<Rightarrow>
          Inr (Prefix (join_with ''_''
                 (task_type # (case key_type of None \<Rightarrow> [] | Some kt \<Rightarrow> [kt]))), fs)
      | Some gid \<Rightarrow>
          (let group_id' = (case gid of GidInt i \<Rightarrow> str_int i | GidStr s \<Rightarrow> s) in
           case determine_task_list lib run_dct file_dct task_type key_type (StrKey ''all'') of
             Inl e \<Rightarrow> Inl e
           | Inr tasks \<Rightarrow>
          (case write_task_list tasks (joinpath out_path (group_id' @ ''.yaml'')) fs of
             Inl e \<Rightarrow> Inl e
           | Inr fs1 \<Rightarrow>
          (case setup_tasks run_dct file_dct task_type key_type group_id' out_path
                  (StrKey ''all'') 0 tasks fs1 of
             Inl e \<Rightarrow> Inl e
           | Inr (row_dcts, fs2) \<Rightarrow>
          (case write_file fs2 (joinpath out_path (group_id' @ ''.csv'')) (Csv row_dcts) of
             Inl e \<Rightarrow> Inl e
           | Inr fs3 \<Rightarrow> Inr (DataFrame row_dcts, fs3))))))"

subsection \<open>The setup command\<close>

text \<open>
  The second step of \<open>main\<close> (\<open># Set the run and save paths\<close>): the paths are resolved
  from the parsed run dictionary, and \<open>run_dct["input"]\<close> is assigned the two lines that
  hold them.  It returns the paths and the run dictionary that every group is set up
  from.
\<close>

definition main_run_dct ::
  "(string, string) dict \<Rightarrow> string option \<Rightarrow> string option
     \<Rightarrow> error + string \<times> string \<times> (string, string) dict" where
  "main_run_dct run_dct save_path run_path =
     (case filesystem_paths_from_run_dict run_dct save_path run_path of
        Inl e \<Rightarrow> Inl e
      | Inr (save_path', run_path') \<Rightarrow>
          Inr (save_path', run_path',
               AList.update ''input''
                 (''run_prefix = '' @ run_path' @ [LF] @ ''save_prefix = '' @ save_path')
                 run_dct))"

fun setup_groups ::
  "library \<Rightarrow> (string, string) dict \<Rightarrow> (string, string) dict \<Rightarrow> path \<Rightarrow> int
     \<Rightarrow> (string \<times> string option) list \<Rightarrow> filesystem \<Rightarrow> error + filesystem" where
  "setup_groups lib run_dct file_dct out_path group_id [] fs = Inr fs"
| "setup_groups lib run_dct file_dct out_path group_id ((task_type, key_type) # groups) fs =
     (case setup_subtask_group lib run_dct file_dct task_type key_type (Some (GidInt group_id))
             out_path fs of
        Inl e \<Rightarrow> Inl e
      | Inr (_, fs') \<Rightarrow> setup_groups lib run_dct file_dct out_path (group_id + 1) groups fs')"

definition DEFAULT_GROUPS :: "(string \<times> string option) list" where
  "DEFAULT_GROUPS = [(''els'', Some ''spc''), (''els'', Some ''pes''),
                     (''thermo'', Some ''spc''), (''kin'', None)]"

definition main ::
  "library \<Rightarrow> string \<Rightarrow> string \<Rightarrow> string option \<Rightarrow> string option
     \<Rightarrow> (string \<times> string option) list \<Rightarrow> string \<Rightarrow> filesystem \<Rightarrow> error + filesystem" where
  "main lib path' out_path save_path run_path groups cwd fs =
     (case read_input_files (path_of path') fs of
        Inl e \<Rightarrow> Inl e
      | Inr file_dct \<Rightarrow>
     (case map_of file_dct ''run.dat'' of
        None \<Rightarrow> Inl TypeError
      | Some run_dat \<Rightarrow>
     (case parse_run_dat run_dat of
        Inl e \<Rightarrow> Inl e
      | Inr run_dct0 \<Rightarrow>
     (case main_run_dct run_dct0 save_path run_path of
        Inl e \<Rightarrow> Inl e
      | Inr (save_path', run_path', run_dct) \<Rightarrow>
     (case mkdir fs (path_of out_path) False True of
        Inl e \<Rightarrow> Inl e
      | Inr fs1 \<Rightarrow>
     (case setup_groups lib run_dct file_dct (path_of out_path) 0 groups fs1 of
        Inl e \<Rightarrow> Inl e
      | Inr fs2 \<Rightarrow>
          write_file fs2 (joinpath (path_of out_path) ''info.yaml'')
            (Yaml (YMap [(''group_ids'', YSeq (map (\<lambda>i. YInt (int i)) [0 ..< length groups])),
                         (''run_path'', YStr run_path'),
                         (''save_path'', YStr save_path'),
                         (''work_path'', YStr cwd)]))))))))"

text \<open>What \<open>read_task_list\<close> makes of a key written by \<open>write_task_list\<close>.\<close>

fun loaded_key :: "subtask_key \<Rightarrow> subtask_key" where
  "loaded_key (PairKey p c) = ListKey [p, c]"
| "loaded_key k = k"

subsection \<open>An example run\<close>

text \<open>
  The run used in the examples below: two electronic-structure tasks, one theory level
  and a species table of three rows, of which the second (pentane) has two torsions.
  The example library gives the values the three outside computations have on the
  strings of this run; it answers \<open>LibraryError\<close> anywhere else.
\<close>

definition example_theory_dat :: string where
  "example_theory_dat =
     ''level lvl1'' @ [LF] @ ''    mem = 4.0'' @ [LF] @ ''    nprocs = 8'' @ [LF] @
     ''end level'' @ [LF]"

definition example_species_csv :: string where
  "example_species_csv =
     ''name,inchi'' @ [LF] @
     ''A,InChI=1S/CH4/h1H4'' @ [LF] @
     ''B,'' @ [CHR 0x27] @ ''InChI=1S/C5H12/c1-3-5-4-2/h3-5H2,1-2H3'' @ [CHR 0x27] @ [LF] @
     ''C,InChI=1S/H2O/h1H2'' @ [LF]"

definition example_file_dct :: "(string, string) dict" where
  "example_file_dct =
     [(''theory.dat'', example_theory_dat), (''species.csv'', example_species_csv)]"

definition example_library :: library where
  "example_library =
     \<lparr>lib_float_int = (\<lambda>s. if s = ''4.0'' then Inr 4
                             else if s = ''8'' then Inr 8
                             else if s = ''2'' then Inr 2
                             else if s = ''abc'' then Inl ValueError
                             else Inl LibraryError),
      lib_inchi_column = (\<lambda>csv. if csv = example_species_csv
                                  then Inr [''InChI=1S/CH4/h1H4'',
                                            ''InChI=1S/C5H12/c1-3-5-4-2/h3-5H2,1-2H3'',
                                            ''InChI=1S/H2O/h1H2'']
                                  else Inl LibraryError),
      lib_rotational_bond_count =
        (\<lambda>chi. if chi = ''InChI=1S/C5H12/c1-3-5-4-2/h3-5H2,1-2H3'' then Inr 2
                else if chi = ''InChI=1S/CH4/h1H4'' \<or> chi = ''InChI=1S/H2O/h1H2'' then Inr 0
                else Inl LibraryError)\<rparr>"

definition example_els_block :: string where
  "example_els_block =
     ''    spc init_geom runlvl=lvl1'' @ [LF] @
     ''    spc conf_samp runlvl=lvl1 cnf_range=n50''"


definition example_fs :: filesystem where
  "example_fs = (\<lambda>_. None)(path_of ''subtasks'' \<mapsto> Dir)"

section \<open>Properties\<close>

subsection \<open>Sample-count cap\<close>

lemma cap_reached:
  fixes a b c d :: int and t :: nat
  assumes "0 < b" "2 \<le> c" "a < d"
    and "\<lceil>log (real_of_int c) (real_of_int (d - a) / real_of_int b)\<rceil> \<le> int t"
  shows "d \<le> a + b * c ^ t"
proof -
  have c1: "1 < real_of_int c" using assms by simp
  have pos: "0 < real_of_int (d - a) / real_of_int b" using assms by simp
  have "log (real_of_int c) (real_of_int (d - a) / real_of_int b) \<le> real t"
    using assms(4) by (simp add: ceiling_le_iff)
  then have "real_of_int (d - a) / real_of_int b \<le> real_of_int c powr real t"
    using c1 pos by (simp add: log_le_iff)
  also have "\<dots> = real_of_int c ^ t" using c1 by (simp add: powr_realpow)
  finally have "real_of_int (d - a) \<le> real_of_int b * real_of_int c ^ t"
    using assms(1) by (simp add: pos_divide_le_eq mult.commute)
  then have "real_of_int (d - a) \<le> real_of_int (b * c ^ t)" by simp
  then have "d - a \<le> b * c ^ t" by linarith
  then show ?thesis by simp
qed

text \<open>
  Claim C3.  With torsion count \<open>t\<close> of the structure: for \<open>t = 0\<close> the sample count is
  exactly 1 whatever the parameters; for \<open>t \<ge> 1\<close> it is \<open>min (a + b * c ^ t) d\<close>; and
  hence, for \<open>t \<ge> 1\<close> with positive parameters, \<open>c \<ge> 2\<close> and \<open>d > a\<close>, it is exactly \<open>d\<close>
  as soon as \<open>t \<ge> \<lceil>log\<^sub>c ((d - a) / b)\<rceil>\<close>.
\<close>

theorem sample_count_cap:
  "(rotational_bond_count chi = Inr 0 \<longrightarrow>
      sample_count_from_inchi rotational_bond_count chi a b c d = Inr 1) \<and>
   (rotational_bond_count chi = Inr t \<and> 1 \<le> t \<longrightarrow>
      sample_count_from_inchi rotational_bond_count chi a b c d = Inr (min (a + b * c ^ t) d)) \<and>
   (rotational_bond_count chi = Inr t \<and> 1 \<le> t \<and> 0 < a \<and> 0 < b \<and> 2 \<le> c \<and> a < d \<and>
      \<lceil>log (real_of_int c) (real_of_int (d - a) / real_of_int b)\<rceil> \<le> int t \<longrightarrow>
      sample_count_from_inchi rotational_bond_count chi a b c d = Inr d)"
proof (intro conjI impI)
  assume "rotational_bond_count chi = Inr 0"
  then show "sample_count_from_inchi rotational_bond_count chi a b c d = Inr 1"
    by (simp add: sample_count_from_inchi_def)
next
  assume "rotational_bond_count chi = Inr t \<and> 1 \<le> t"
  then show "sample_count_from_inchi rotational_bond_count chi a b c d
      = Inr (min (a + b * c ^ t) d)"
    by (simp add: sample_count_from_inchi_def)
next
  assume h: "rotational_bond_count chi = Inr t \<and> 1 \<le> t \<and> 0 < a \<and> 0 < b \<and> 2 \<le> c \<and> a < d \<and>
      \<lceil>log (real_of_int c) (real_of_int (d - a) / real_of_int b)\<rceil> \<le> int t"
  then have "d \<le> a + b * c ^ t" using cap_reached [of b c a d t] by blast
  with h show "sample_count_from_inchi rotational_bond_count chi a b c d = Inr d"
    by (simp add: sample_count_from_inchi_def min_def)
qed

theorem sample_count_cap_witness:
  "sample_count_from_inchi (\<lambda>_. Inr 0) ''InChI=1S/CH4/h1H4'' 12 1 3 100 = Inr 1 \<and>
   (1::nat) \<le> 3 \<and> (0::int) < 1 \<and> (2::int) \<le> 2 \<and> (1::int) < 9 \<and>
   \<lceil>log (real_of_int 2) (real_of_int (9 - 1) / real_of_int 1)\<rceil> \<le> int 3 \<and>
   sample_count_from_inchi (\<lambda>_. Inr 3) ''InChI=1S/C5H12/c1-3-5-4-2/h3-5H2,1-2H3'' 1 1 2 9
     = Inr (min (1 + 1 * 2 ^ 3) 9) \<and>
   sample_count_from_inchi (\<lambda>_. Inr 3) ''InChI=1S/C5H12/c1-3-5-4-2/h3-5H2,1-2H3'' 1 1 2 9 = Inr 9"
proof -
  have l: "log 2 8 = 3"
    using log_pow_cancel [of "2::real" 3] by simp
  have c: "\<lceil>log (real_of_int 2) (real_of_int (9 - 1) / real_of_int 1)\<rceil> \<le> int 3"
    by (simp add: l)
  from sample_count_cap [of "\<lambda>_. Inr 0" "''InChI=1S/CH4/h1H4''" 12 1 3 100 0]
  have a0: "sample_count_from_inchi (\<lambda>_. Inr 0) ''InChI=1S/CH4/h1H4'' 12 1 3 100 = Inr 1"
    by simp
  note th = sample_count_cap
    [of "\<lambda>_. Inr 3" "''InChI=1S/C5H12/c1-3-5-4-2/h3-5H2,1-2H3''" 1 1 2 9 3]
  have h2: "(Inr 3 :: error + nat) = Inr 3 \<and> (1::nat) \<le> 3" by simp
  have a3: "sample_count_from_inchi (\<lambda>_. Inr 3) ''InChI=1S/C5H12/c1-3-5-4-2/h3-5H2,1-2H3'' 1 1 2 9
      = Inr (min (1 + 1 * 2 ^ 3) 9)"
    using th h2 by blast
  have h3: "(Inr 3 :: error + nat) = Inr 3 \<and> (1::nat) \<le> 3 \<and> (0::int) < 1 \<and> (0::int) < 1 \<and>
      (2::int) \<le> 2 \<and> (1::int) < 9 \<and>
      \<lceil>log (real_of_int 2) (real_of_int (9 - 1) / real_of_int 1)\<rceil> \<le> int 3"
    using c by (intro conjI) simp_all
  have a4: "sample_count_from_inchi (\<lambda>_. Inr 3) ''InChI=1S/C5H12/c1-3-5-4-2/h3-5H2,1-2H3'' 1 1 2 9 = Inr 9"
    using th h3 by blast
  from a0 a3 a4 c show ?thesis by simp
qed

subsection \<open>Lines without fields\<close>

lemma expandtabs_col_set: "set (expandtabs_col col s) \<subseteq> insert SP (set s)"
  by (induction s arbitrary: col) auto

lemma no_eq_expandtabs: "CHR ''='' \<notin> set s \<Longrightarrow> CHR ''='' \<notin> set (expandtabs s)"
  using expandtabs_col_set [of 0 s] by (auto simp: expandtabs_def)

lemma parseImpl_Literal:
  "parseImpl (Literal m) s l =
     (if take (length m) (drop l s) = m then Inr (l + length m, [S m]) else Inl ParseException)"
  by (simp add: Literal_def token_def)

lemma parseImpl_Suppress:
  "parseImpl (Suppress e) s l =
     (case parseImpl e s l of Inl err \<Rightarrow> Inl err | Inr (l', _) \<Rightarrow> Inr (l', []))"
  by (simp add: Suppress_def enhance_def pp_parse_def)

lemma parseImpl_Group:
  "parseImpl (Group e) s l =
     (case parseImpl e s l of Inl err \<Rightarrow> Inl err | Inr (l', toks) \<Rightarrow> Inr (l', [G toks]))"
  by (simp add: Group_def enhance_def pp_parse_def)

lemma parseImpl_And:
  "parseImpl (And (e # es)) s l =
     (case parseImpl e s l of Inl err \<Rightarrow> Inl err | Inr (l', r) \<Rightarrow> and_rest es s l' r)"
  by (simp add: And_def pp_parse_def split: sum.splits)

lemma parseImpl_DelimitedList:
  "parseImpl (DelimitedList e d) s l =
     parseImpl (And [e, ZeroOrMore (And [Suppress d, e])]) s l"
  by (simp add: DelimitedList_def enhance_def pp_parse_def)

lemma parseImpl_SkipTo:
  "parseImpl (SkipTo e) s l =
     (case skipto_loop (enhance e (\<lambda>_ _. Inl ParseException)) e s (Suc (length s) - l) l of
        Inl err \<Rightarrow> Inl err
      | Inr l' \<Rightarrow> Inr (l', [S (take (l' - l) (drop l s))]))"
  by (simp add: SkipTo_def enhance_def)

lemma word_result:
  "parseImpl (Word chars) s l = Inl ParseException \<or> (\<exists>r. parseImpl (Word chars) s l = Inr r)"
  by (auto simp: Word_def token_def Let_def split: list.splits)

lemma impl_fails_parse:
  assumes "\<And>l. parseImpl e s l = Inl ParseException"
  shows "pp_parse e s l b = Inl ParseException"
  using assms by (simp add: pp_parse_def)

lemma literal_eq_fails:
  assumes "CHR ''='' \<notin> set s"
  shows "parseImpl (Literal ''='') s l = Inl ParseException"
proof -
  have "take (Suc 0) (drop l s) \<noteq> ''=''"
  proof
    assume h: "take (Suc 0) (drop l s) = ''=''"
    then have "CHR ''='' \<in> set (take (Suc 0) (drop l s))" by simp
    then have "CHR ''='' \<in> set s" by (meson in_set_dropD in_set_takeD)
    with assms show False by simp
  qed
  then show ?thesis by (simp add: parseImpl_Literal)
qed

lemma field_fails:
  assumes "CHR ''='' \<notin> set s"
  shows "parseImpl (Group (And [Word chars, Suppress (Literal ''=''), w'])) s l
           = Inl ParseException"
proof -
  have "\<And>l. parseImpl (Suppress (Literal ''='')) s l = Inl ParseException"
    by (simp add: parseImpl_Suppress literal_eq_fails [OF assms])
  then have eq: "\<And>l b. pp_parse (Suppress (Literal ''='')) s l b = Inl ParseException"
    by (rule impl_fails_parse)
  show ?thesis
    using word_result [of chars s l]
    by (auto simp: parseImpl_Group parseImpl_And eq split: sum.splits)
qed

lemma delimited_fails:
  assumes "\<And>l. parseImpl expr s l = Inl ParseException"
  shows "parseImpl (DelimitedList expr delim) s l = Inl ParseException"
  by (simp add: parseImpl_DelimitedList parseImpl_And assms)

lemma skipto_loop_fails:
  assumes "\<And>l. parseImpl expr s l = Inl ParseException"
  shows "skipto_loop self expr s n l = Inl ParseException"
  by (induction n arbitrary: l)
     (simp_all add: Let_def impl_fails_parse [of expr s, OF assms])

lemma skipto_fails:
  assumes "\<And>l. parseImpl expr s l = Inl ParseException"
  shows "parseImpl (SkipTo expr) s l = Inl ParseException"
  by (simp add: parseImpl_SkipTo skipto_loop_fails [of expr s, OF assms])

lemma parse_task_fields_no_eq:
  assumes "CHR ''='' \<notin> set task_line"
  shows "parse_task_fields task_line = Inl ParseException"
proof -
  let ?s = "expandtabs task_line"
  let ?w = "Word (\<lambda>c. printables c \<and> c \<noteq> CHR ''='')"
  let ?f = "Group (And [?w, Suppress (Literal ''=''), ?w])"
  have ne: "CHR ''='' \<notin> set ?s" using assms by (rule no_eq_expandtabs)
  have f: "\<And>l. parseImpl ?f ?s l = Inl ParseException"
    using field_fails [OF ne] by simp
  have d: "\<And>l. parseImpl (DelimitedList ?f WordEnd) ?s l = Inl ParseException"
    using delimited_fails [of ?f ?s, OF f] by simp
  have k: "\<And>l. parseImpl (SkipTo (DelimitedList ?f WordEnd)) ?s l = Inl ParseException"
    using skipto_fails [of "DelimitedList ?f WordEnd" ?s, OF d] by simp
  have "parseString (And [Suppress (SkipTo (DelimitedList ?f WordEnd)), DelimitedList ?f WordEnd])
          task_line = Inl ParseException"
    by (simp add: parseString_def pp_parse_def parseImpl_And parseImpl_Suppress k)
  then show ?thesis by (simp add: parse_task_fields_def Let_def)
qed

text \<open>
  Claim C5 says that a task line with neither \<open>runlvl\<close> nor \<open>nprocs\<close> resolves to null
  memory and null process count, also when the line has no \<open>key=value\<close> field at all.
  The code does not do that on the lines without fields: for every task line that holds
  no \<open>=\<close> character, the field grammar finds nothing to skip to, and both
  \<open>parse_task_memory\<close> and \<open>parse_task_nprocs\<close> raise \<open>ParseException\<close>.
\<close>

theorem no_field_line_fails:
  "CHR ''='' \<notin> set task_line \<Longrightarrow>
     parse_task_memory lib task_line file_dct = Inl ParseException \<and>
     parse_task_nprocs lib task_line file_dct = Inl ParseException"
  by (simp add: parse_task_memory_def parse_task_nprocs_def parse_task_fields_no_eq)

theorem no_field_line_fails_witness:
  "CHR ''='' \<notin> set ''run_mess'' \<and>
   parse_task_memory example_library ''run_mess'' example_file_dct = Inl ParseException \<and>
   parse_task_nprocs example_library ''run_mess'' example_file_dct = Inl ParseException"
  using no_field_line_fails [of "''run_mess''" example_library example_file_dct] by simp

subsection \<open>Process count: inline field and theory level\<close>

text \<open>
  Claim C2 says that on a line with both \<open>nprocs=v\<close> and \<open>runlvl=level\<close> the result is
  always the theory table's \<open>nprocs\<close> of the level.  That fails in two ways.  When \<open>v\<close>
  is not a number, the inline value is cast first, and its \<open>ValueError\<close> leaves the
  function before the level is looked up.  And the fields that \<open>parse_task_nprocs\<close>
  sees are those that \<open>parse_task_fields\<close> returns, which are not always all the
  \<open>key=value\<close> tokens of the line: on \<open>spc init_geom nprocs=2 foo runlvl=lvl1\<close> the list
  of fields ends at the token \<open>foo\<close>, \<open>runlvl\<close> is not among the fields returned, and the
  result is the inline 2 although the theory table has 8 for the level.
\<close>

theorem nprocs_inline_cast_first:
  "parse_task_fields ''spc init_geom nprocs=abc runlvl=lvl1''
     = Inr [(''nprocs'', ''abc''), (''runlvl'', ''lvl1'')] \<and>
   theory_value example_library example_file_dct ''lvl1'' ''nprocs'' = Inr 8 \<and>
   parse_task_nprocs example_library ''spc init_geom nprocs=abc runlvl=lvl1'' example_file_dct
     = Inl ValueError \<and>
   parse_task_fields ''spc init_geom nprocs=2 foo runlvl=lvl1'' = Inr [(''nprocs'', ''2'')] \<and>
   parse_task_nprocs example_library ''spc init_geom nprocs=2 foo runlvl=lvl1'' example_file_dct
     = Inr (Some 2)"
  by code_simp

text \<open>
  Claim C2, amended.  The inline fields of a task line are here the fields that
  \<open>parse_task_fields\<close> returns for it; a line on which it returns other fields than the
  \<open>key=value\<close> tokens of the line (as on the line with \<open>foo\<close> above) is left out.  When
  the fields returned hold both \<open>nprocs=v\<close> and \<open>runlvl=level\<close>: if the cast of \<open>v\<close>
  raises, \<open>parse_task_nprocs\<close> raises the same; if \<open>v\<close> casts to a number, whatever
  number, the result is the cast (through float, then int) of the \<open>nprocs\<close> entry that
  the theory table has for the level.  When the fields returned hold \<open>nprocs=v\<close> and no
  \<open>runlvl\<close>, the result is the cast of \<open>v\<close>.
\<close>

theorem nprocs_runlvl_precedence:
  "(parse_task_fields task_line = Inr field_dct \<and>
    map_of field_dct ''nprocs'' = Some v \<and> map_of field_dct ''runlvl'' = Some runlvl \<and>
    lib_float_int lib v = Inl e
    \<longrightarrow> parse_task_nprocs lib task_line file_dct = Inl e) \<and>
   (parse_task_fields task_line = Inr field_dct \<and>
    map_of field_dct ''nprocs'' = Some v \<and> map_of field_dct ''runlvl'' = Some runlvl \<and>
    lib_float_int lib v = Inr n0 \<and>
    map_of file_dct ''theory.dat'' = Some theory_dat \<and>
    parse_theory_dat theory_dat = Inr theory_dct \<and>
    map_of theory_dct runlvl = Some level \<and> map_of level ''nprocs'' = Some pv
    \<longrightarrow> parse_task_nprocs lib task_line file_dct
          = (case lib_float_int lib pv of Inl e' \<Rightarrow> Inl e' | Inr n \<Rightarrow> Inr (Some n))) \<and>
   (parse_task_fields task_line = Inr field_dct \<and>
    map_of field_dct ''nprocs'' = Some v \<and> map_of field_dct ''runlvl'' = None
    \<longrightarrow> parse_task_nprocs lib task_line file_dct
          = (case lib_float_int lib v of Inl e' \<Rightarrow> Inl e' | Inr n \<Rightarrow> Inr (Some n)))"
  by (auto simp: parse_task_nprocs_def theory_value_def split: sum.splits)

theorem nprocs_runlvl_precedence_witness:
  "parse_task_fields ''spc init_geom nprocs=2 runlvl=lvl1''
     = Inr [(''nprocs'', ''2''), (''runlvl'', ''lvl1'')] \<and>
   lib_float_int example_library ''2'' = Inr 2 \<and>
   map_of example_file_dct ''theory.dat'' = Some example_theory_dat \<and>
   parse_theory_dat example_theory_dat
     = Inr [(''lvl1'', [(''mem'', ''4.0''), (''nprocs'', ''8'')])] \<and>
   parse_task_nprocs example_library ''spc init_geom nprocs=2 runlvl=lvl1'' example_file_dct
     = Inr (Some 8) \<and>
   parse_task_fields ''spc init_geom nprocs=abc runlvl=lvl1''
     = Inr [(''nprocs'', ''abc''), (''runlvl'', ''lvl1'')] \<and>
   lib_float_int example_library ''abc'' = Inl ValueError \<and>
   parse_task_nprocs example_library ''spc init_geom nprocs=abc runlvl=lvl1'' example_file_dct
     = Inl ValueError \<and>
   parse_task_fields ''write_mess nprocs=2''  = Inr [(''nprocs'', ''2'')] \<and>
   parse_task_nprocs example_library ''write_mess nprocs=2'' example_file_dct = Inr (Some 2)"
proof -
  have f1: "parse_task_fields ''spc init_geom nprocs=2 runlvl=lvl1''
     = Inr [(''nprocs'', ''2''), (''runlvl'', ''lvl1'')]"
    by code_simp
  have f2: "parse_task_fields ''spc init_geom nprocs=abc runlvl=lvl1''
     = Inr [(''nprocs'', ''abc''), (''runlvl'', ''lvl1'')]"
    by code_simp
  have f3: "parse_task_fields ''write_mess nprocs=2'' = Inr [(''nprocs'', ''2'')]"
    by code_simp
  have c2: "lib_float_int example_library ''2'' = Inr 2"
    and c8: "lib_float_int example_library ''8'' = Inr 8"
    and cabc: "lib_float_int example_library ''abc'' = Inl ValueError"
    by (simp_all add: example_library_def)
  have t1: "map_of example_file_dct ''theory.dat'' = Some example_theory_dat"
    by (simp add: example_file_dct_def)
  have t2: "parse_theory_dat example_theory_dat
     = Inr [(''lvl1'', [(''mem'', ''4.0''), (''nprocs'', ''8'')])]"
    by code_simp
  have r1: "parse_task_nprocs example_library ''spc init_geom nprocs=2 runlvl=lvl1''
      example_file_dct = Inr (Some 8)"
    using nprocs_runlvl_precedence
      [of "''spc init_geom nprocs=2 runlvl=lvl1''" "[(''nprocs'', ''2''), (''runlvl'', ''lvl1'')]"
          "''2''" "''lvl1''" example_library _ example_file_dct 2 example_theory_dat
          "[(''lvl1'', [(''mem'', ''4.0''), (''nprocs'', ''8'')])]"
          "[(''mem'', ''4.0''), (''nprocs'', ''8'')]" "''8''"]
      f1 c2 c8 t1 t2
    by simp
  have r2: "parse_task_nprocs example_library ''spc init_geom nprocs=abc runlvl=lvl1''
      example_file_dct = Inl ValueError"
    using nprocs_runlvl_precedence
      [of "''spc init_geom nprocs=abc runlvl=lvl1''"
          "[(''nprocs'', ''abc''), (''runlvl'', ''lvl1'')]"
          "''abc''" "''lvl1''" example_library ValueError example_file_dct]
      f2 cabc
    by simp
  have r3: "parse_task_nprocs example_library ''write_mess nprocs=2'' example_file_dct
      = Inr (Some 2)"
    using nprocs_runlvl_precedence
      [of "''write_mess nprocs=2''" "[(''nprocs'', ''2'')]" "''2''" _ example_library _
          example_file_dct]
      f3 c2
    by simp
  from f1 f2 f3 c2 cabc t1 t2 r1 r2 r3 show ?thesis by simp
qed

subsection \<open>Worker counts\<close>





subsection \<open>Length of the worker counts\<close>

text \<open>
  Claim C1 says that every Task of \<open>determine_task_list\<close> has as many worker counts as
  subtask keys, sampling lines included.  On a sampling line the code builds the worker
  counts from the rows of the species table and drops the list of length \<open>nsub\<close>: with the
  species block \<open>1-2\<close> and the three-row species table of the example, the second task
  has two keys and three worker counts.
\<close>

theorem sampling_task_length_mismatch:
  "(case determine_task_list example_library
            [(''spc'', ''    1-2''), (''els'', example_els_block)]
            example_file_dct ''els'' (Some ''spc'') (StrKey ''all'') of
      Inl e \<Rightarrow> []
    | Inr tasks \<Rightarrow> map (\<lambda>t. (name t, subtask_keys t, subtask_nworkers t)) tasks)
   = [(''init_geom'', [IntKey 1, IntKey 2], [1, 1]),
      (''conf_samp'', [IntKey 1, IntKey 2], [1, 20, 1])]"
  by code_simp

subsection \<open>Index series\<close>

text \<open>
  Claim C7 gives two results of \<open>parse_index_series\<close>.  The second holds: \<open>2,2,1,3-4,3\<close>
  gives \<open>[2, 1, 3, 4]\<close>.  The first, the example of the function's docstring, does not:
  the delimiter \<open>LineEnd() ^ Literal(",")\<close> is an \<open>Or\<close>, which keeps the default whitespace
  characters, newline among them, so the newline after \<open>5-9\<close> is skipped before the
  delimiter is tried and the list ends there.
\<close>

theorem parse_index_series_examples:
  "parse_index_series ''2,2,1,3-4,3'' = Inr [2, 1, 3, 4] \<and>
   parse_index_series
     (''1,3, 5-9  '' @ [LF] @ ''  11,13-14'' @ [LF] @ ''23'' @ [LF] @ '' 27-29'')
     = Inr [1, 3, 5, 6, 7, 8, 9]"
  by code_simp

subsection \<open>A group without an identifier\<close>

text \<open>
  Claim C10.  Called without a group identifier, \<open>setup_subtask_group\<close> returns the
  prefix of the group, \<open>task_type\<close> alone when there is no key type and
  \<open>task_type_key_type\<close> otherwise, and not a table; the file system it returns is the
  one it was given, so no directory was created and no file written; and it returns this
  for every library, run dictionary and file dictionary, those on which resolving the
  tasks would fail included, so no task was resolved.
\<close>

theorem setup_group_without_id:
  "setup_subtask_group lib run_dct file_dct task_type key_type None out_path fs
     = Inr (Prefix (case key_type of None \<Rightarrow> task_type | Some kt \<Rightarrow> task_type @ ''_'' @ kt), fs)"
  by (simp add: setup_subtask_group_def join_with_def split: option.splits)

subsection \<open>Writing and reading back a task list\<close>

lemma node_ints_map: "node_ints (map YInt xs) = Inr xs"
  by (induction xs) simp_all

lemma node_key_key_node: "node_key (key_node k) = Inr (loaded_key k)"
  by (cases k) (simp_all add: node_key_def node_ints_map)

lemma collect_keys: "collect (map (node_key \<circ> key_node) ks) = Inr (map loaded_key ks)"
  by (induction ks) (simp_all add: node_key_key_node)

lemma node_opt_int_node: "node_opt_int (opt_int_node v) = Inr v"
  by (cases v) (simp_all add: node_opt_int_def opt_int_node_def)

lemma node_task_task_node:
  "node_task (task_node t) = Inr (t\<lparr>subtask_keys := map loaded_key (subtask_keys t)\<rparr>)"
proof -
  have se: "{''line'', ''mem'', ''name'', ''nprocs'', ''subtask_keys'', ''subtask_nworkers''}
      = {''name'', ''line'', ''mem'', ''nprocs'', ''subtask_keys'', ''subtask_nworkers''}"
    by auto
  show ?thesis
    by (cases t)
       (simp add: node_task_def task_node_def node_opt_int_node collect_keys node_ints_map se)
qed

lemma collect_tasks:
  "collect (map (node_task \<circ> task_node) ts)
     = Inr (map (\<lambda>t. t\<lparr>subtask_keys := map loaded_key (subtask_keys t)\<rparr>) ts)"
  by (induction ts) (simp_all add: node_task_task_node)

lemma read_after_write:
  assumes "write_file fs p c = Inr fs'"
  shows "read_file fs' p = Inr c"
proof -
  from assms have nd: "\<not> is_dir fs p" and fs': "fs' = fs(p \<mapsto> File c)"
    by (auto simp: write_file_def split: if_splits)
  from nd have "path_parts p \<noteq> []" by (simp add: is_dir_def)
  then have "\<not> is_dir fs' p" by (simp add: is_dir_def fs')
  then show ?thesis by (simp add: read_file_def fs')
qed

lemma loaded_key_id: "\<forall>a b. k \<noteq> PairKey a b \<Longrightarrow> loaded_key k = k"
  by (cases k) auto

text \<open>
  Claim C6 says that reading back a written task list gives the records that were
  written, field for field.  The code does so for every field but \<open>subtask_keys\<close>: a key
  that is a pair \<open>(pes, channel)\<close>, as the keys of every \<open>pes\<close> group are, is written as a
  sequence and read back as the list \<open>[pes, channel]\<close>, which is not the pair.  For every
  task list, whenever the write succeeds, the list read back is the list written with
  each key passed through \<open>loaded_key\<close>; \<open>name\<close>, \<open>line\<close>, \<open>mem\<close> and \<open>nprocs\<close> (null
  included) and the worker counts are those written, and when no key is a pair the list
  read back is the list written.
\<close>

theorem task_list_roundtrip:
  "write_task_list tasks p fs = Inr fs' \<longrightarrow>
     read_task_list p fs'
       = Inr (map (\<lambda>t. t\<lparr>subtask_keys := map loaded_key (subtask_keys t)\<rparr>) tasks) \<and>
     ((\<forall>t \<in> set tasks. \<forall>k \<in> set (subtask_keys t). \<forall>a b. k \<noteq> PairKey a b)
        \<longrightarrow> read_task_list p fs' = Inr tasks)"
proof (intro impI)
  assume w: "write_task_list tasks p fs = Inr fs'"
  then have r: "read_file fs' p = Inr (Yaml (YSeq (map task_node tasks)))"
    by (simp add: write_task_list_def read_after_write)
  have g: "read_task_list p fs'
      = Inr (map (\<lambda>t. t\<lparr>subtask_keys := map loaded_key (subtask_keys t)\<rparr>) tasks)"
    by (simp add: read_task_list_def r collect_tasks)
  have s: "(\<forall>t \<in> set tasks. \<forall>k \<in> set (subtask_keys t). \<forall>a b. k \<noteq> PairKey a b)
        \<longrightarrow> map (\<lambda>t. t\<lparr>subtask_keys := map loaded_key (subtask_keys t)\<rparr>) tasks = tasks"
  proof
    assume h: "\<forall>t \<in> set tasks. \<forall>k \<in> set (subtask_keys t). \<forall>a b. k \<noteq> PairKey a b"
    have "\<And>t. t \<in> set tasks \<Longrightarrow> map loaded_key (subtask_keys t) = subtask_keys t"
      using h by (simp add: loaded_key_id map_idI)
    then show "map (\<lambda>t. t\<lparr>subtask_keys := map loaded_key (subtask_keys t)\<rparr>) tasks = tasks"
      by (simp add: map_idI)
  qed
  from g s show "read_task_list p fs'
       = Inr (map (\<lambda>t. t\<lparr>subtask_keys := map loaded_key (subtask_keys t)\<rparr>) tasks) \<and>
     ((\<forall>t \<in> set tasks. \<forall>k \<in> set (subtask_keys t). \<forall>a b. k \<noteq> PairKey a b)
        \<longrightarrow> read_task_list p fs' = Inr tasks)"
    by simp
qed

theorem task_list_roundtrip_witness:
  "write_task_list
      [\<lparr>name = ''find_ts'', line = ''ts find_ts runlvl=lvl1'', mem = None, nprocs = Some 8,
        subtask_keys = [PairKey 1 2], subtask_nworkers = [1]\<rparr>]
      (path_of ''subtasks/1.yaml'') example_fs
     = Inr (example_fs(path_of ''subtasks/1.yaml'' \<mapsto> File (Yaml (YSeq (map task_node
         [\<lparr>name = ''find_ts'', line = ''ts find_ts runlvl=lvl1'', mem = None, nprocs = Some 8,
           subtask_keys = [PairKey 1 2], subtask_nworkers = [1]\<rparr>]))))) \<and>
   read_task_list (path_of ''subtasks/1.yaml'')
      (example_fs(path_of ''subtasks/1.yaml'' \<mapsto> File (Yaml (YSeq (map task_node
         [\<lparr>name = ''find_ts'', line = ''ts find_ts runlvl=lvl1'', mem = None, nprocs = Some 8,
           subtask_keys = [PairKey 1 2], subtask_nworkers = [1]\<rparr>])))))
     = Inr [\<lparr>name = ''find_ts'', line = ''ts find_ts runlvl=lvl1'', mem = None, nprocs = Some 8,
             subtask_keys = [ListKey [1, 2]], subtask_nworkers = [1]\<rparr>] \<and>
   write_task_list
      [\<lparr>name = ''init_geom'', line = ''spc init_geom'', mem = None, nprocs = None,
        subtask_keys = [IntKey 1, IntKey 2], subtask_nworkers = [1, 1]\<rparr>]
      (path_of ''subtasks/0.yaml'') example_fs
     = Inr (example_fs(path_of ''subtasks/0.yaml'' \<mapsto> File (Yaml (YSeq (map task_node
         [\<lparr>name = ''init_geom'', line = ''spc init_geom'', mem = None, nprocs = None,
           subtask_keys = [IntKey 1, IntKey 2], subtask_nworkers = [1, 1]\<rparr>]))))) \<and>
   read_task_list (path_of ''subtasks/0.yaml'')
      (example_fs(path_of ''subtasks/0.yaml'' \<mapsto> File (Yaml (YSeq (map task_node
         [\<lparr>name = ''init_geom'', line = ''spc init_geom'', mem = None, nprocs = None,
           subtask_keys = [IntKey 1, IntKey 2], subtask_nworkers = [1, 1]\<rparr>])))))
     = Inr [\<lparr>name = ''init_geom'', line = ''spc init_geom'', mem = None, nprocs = None,
             subtask_keys = [IntKey 1, IntKey 2], subtask_nworkers = [1, 1]\<rparr>]"
proof -
  let ?t1 = "\<lparr>name = ''find_ts'', line = ''ts find_ts runlvl=lvl1'', mem = None,
              nprocs = Some 8, subtask_keys = [PairKey 1 2], subtask_nworkers = [1]\<rparr>"
  let ?t0 = "\<lparr>name = ''init_geom'', line = ''spc init_geom'', mem = None, nprocs = None,
              subtask_keys = [IntKey 1, IntKey 2], subtask_nworkers = [1, 1]\<rparr>"
  let ?p1 = "path_of ''subtasks/1.yaml''"
  let ?p0 = "path_of ''subtasks/0.yaml''"
  have d1: "\<not> is_dir example_fs ?p1" and e1: "is_dir example_fs (parent ?p1)"
    and d0: "\<not> is_dir example_fs ?p0" and e0: "is_dir example_fs (parent ?p0)"
    by code_simp+
  have w1: "write_task_list [?t1] ?p1 example_fs
      = Inr (example_fs(?p1 \<mapsto> File (Yaml (YSeq (map task_node [?t1])))))"
    using d1 e1 by (simp add: write_task_list_def write_file_def)
  have w0: "write_task_list [?t0] ?p0 example_fs
      = Inr (example_fs(?p0 \<mapsto> File (Yaml (YSeq (map task_node [?t0])))))"
    using d0 e0 by (simp add: write_task_list_def write_file_def)
  have h0: "\<forall>t \<in> set [?t0]. \<forall>k \<in> set (subtask_keys t). \<forall>a b. k \<noteq> PairKey a b"
    by simp
  have r1: "read_task_list ?p1 (example_fs(?p1 \<mapsto> File (Yaml (YSeq (map task_node [?t1])))))
      = Inr [?t1\<lparr>subtask_keys := [ListKey [1, 2]]\<rparr>]"
    using task_list_roundtrip [of "[?t1]" ?p1 example_fs
        "example_fs(?p1 \<mapsto> File (Yaml (YSeq (map task_node [?t1]))))"] w1
    by simp
  have r0: "read_task_list ?p0 (example_fs(?p0 \<mapsto> File (Yaml (YSeq (map task_node [?t0])))))
      = Inr [?t0]"
    using task_list_roundtrip [of "[?t0]" ?p0 example_fs
        "example_fs(?p0 \<mapsto> File (Yaml (YSeq (map task_node [?t0]))))"] w0 h0
    by blast
  from w1 r1 w0 r0 show ?thesis by simp
qed

subsection \<open>Dictionaries\<close>

lemma map_of_update: "map_of (AList.update k v al) = (map_of al)(k \<mapsto> v)"
  by (rule update_conv')

subsection \<open>The paths of the subtask directories\<close>

lemma setup_keys_cells:
  "setup_keys trd fd kt allk tp keys row fs = Inr (row', fs') \<Longrightarrow>
     (\<forall>k \<in> set keys. \<exists>d. subtask_directory k = Inr d \<and>
                            map_of row' k = Some (CellPath (joinpath tp d))) \<and>
     (\<forall>k. k \<notin> set keys \<longrightarrow> map_of row' k = map_of row k)"
proof (induction keys arbitrary: row fs)
  case Nil
  then show ?case by simp
next
  case (Cons key keys)
  from Cons.prems obtain d fs1 sfd fs2 where
    d: "subtask_directory key = Inr d"
    and rest: "setup_keys trd fd kt allk tp keys
                 (AList.update key (CellPath (joinpath tp d)) row) fs2 = Inr (row', fs')"
    by (auto split: sum.splits)
  note ih = Cons.IH [OF rest]
  show ?case
  proof (intro conjI ballI allI impI)
    fix k assume "k \<in> set (key # keys)"
    show "\<exists>d. subtask_directory k = Inr d \<and> map_of row' k = Some (CellPath (joinpath tp d))"
    proof (cases "k \<in> set keys")
      case True
      with ih show ?thesis by blast
    next
      case False
      with \<open>k \<in> set (key # keys)\<close> have "k = key" by simp
      with False ih d show ?thesis by (simp add: map_of_update)
    qed
  next
    fix k assume "k \<notin> set (key # keys)"
    with ih show "map_of row' k = map_of row k" by (simp add: map_of_update)
  qed
qed

lemma setup_tasks_rows:
  "setup_tasks run_dct fd tt kt gid out allk i tasks fs = Inr (rows, fs') \<Longrightarrow>
     length rows = length tasks \<and>
     (\<forall>j < length tasks. \<forall>k \<in> set (subtask_keys (tasks ! j)).
        \<exists>d. subtask_directory k = Inr d \<and>
            map_of (rows ! j) k
              = Some (CellPath (joinpath (task_directory out gid (i + j) (name (tasks ! j))) d)))"
proof (induction tasks arbitrary: i rows fs)
  case Nil
  then show ?case by simp
next
  case (Cons task tasks)
  from Cons.prems obtain row fs1 rows1 where
    k: "setup_keys
          (AList.update tt (line task)
             (filter (\<lambda>(k, v). k \<in> set (''input'' # (case kt of None \<Rightarrow> [''pes'', ''spc'']
                                                      | Some kt' \<Rightarrow> [kt']))) run_dct))
          fd kt allk (task_directory out gid i (name task)) (subtask_keys task)
          [(StrKey ''task'', CellName (name task))] fs = Inr (row, fs1)"
    and t: "setup_tasks run_dct fd tt kt gid out allk (Suc i) tasks fs1 = Inr (rows1, fs')"
    and r: "rows = row # rows1"
    by (auto split: sum.splits prod.splits)
  note ih = Cons.IH [OF t]
  note kc = setup_keys_cells [OF k]
  show ?case
  proof (intro conjI allI impI ballI)
    show "length rows = length (task # tasks)" using ih r by simp
  next
    fix j k assume j: "j < length (task # tasks)" and kin: "k \<in> set (subtask_keys ((task # tasks) ! j))"
    show "\<exists>d. subtask_directory k = Inr d \<and>
            map_of (rows ! j) k
              = Some (CellPath (joinpath (task_directory out gid (i + j) (name ((task # tasks) ! j))) d))"
    proof (cases j)
      case 0
      with kin kc r show ?thesis by simp
    next
      case (Suc j')
      with j kin ih r show ?thesis by simp
    qed
  qed
qed


lemma os_mkdir_dirs:
  "os_mkdir fs p = Inr fs' \<Longrightarrow> is_dir fs' p \<and> (\<forall>q. is_dir fs q \<longrightarrow> is_dir fs' q)"
  by (auto simp: os_mkdir_def is_dir_def split: if_splits)

lemma mkdir_created:
  "os_mkdir fs p = Inr fs1 \<Longrightarrow> mkdir fs p parents exist_ok = Inr fs1"
  by (subst mkdir.simps) simp

lemma mkdir_not_found:
  "os_mkdir fs p = Inl FileNotFoundError \<Longrightarrow>
     mkdir fs p parents exist_ok =
       (if \<not> parents \<or> parent p = p then Inl FileNotFoundError
        else (case mkdir fs (parent p) True True of
                Inl e \<Rightarrow> Inl e
              | Inr fs' \<Rightarrow> mkdir fs' p False exist_ok))"
  by (subst mkdir.simps) simp

lemma mkdir_other:
  "os_mkdir fs p = Inl e \<Longrightarrow> e \<noteq> FileNotFoundError \<Longrightarrow>
     mkdir fs p parents exist_ok = (if \<not> exist_ok \<or> \<not> is_dir fs p then Inl e else Inr fs)"
  by (subst mkdir.simps, cases e) simp_all

lemma mkdir_dirs:
  "mkdir fs p parents exist_ok = Inr fs' \<Longrightarrow>
     is_dir fs' p \<and> (\<forall>q. is_dir fs q \<longrightarrow> is_dir fs' q)"
proof (induction fs p parents exist_ok arbitrary: fs' rule: mkdir.induct)
  case (1 fs p parents exist_ok)
  show ?case
  proof (cases "os_mkdir fs p")
    case (Inr fs1)
    with "1.prems" have "fs' = fs1" by (simp add: mkdir_created)
    with Inr os_mkdir_dirs show ?thesis by blast
  next
    case (Inl e)
    show ?thesis
    proof (cases "e = FileNotFoundError")
      case True
      have u: "mkdir fs p parents exist_ok =
          (if \<not> parents \<or> parent p = p then Inl FileNotFoundError
           else (case mkdir fs (parent p) True True of
                   Inl e \<Rightarrow> Inl e
                 | Inr fs' \<Rightarrow> mkdir fs' p False exist_ok))"
        using Inl True by (simp add: mkdir_not_found)
      have c: "\<not> (\<not> parents \<or> parent p = p)"
      proof
        assume "\<not> parents \<or> parent p = p"
        with u have "mkdir fs p parents exist_ok = Inl FileNotFoundError" by simp
        with "1.prems" show False by simp
      qed
      with u "1.prems" have v: "(case mkdir fs (parent p) True True of
                   Inl e \<Rightarrow> Inl e
                 | Inr fs' \<Rightarrow> mkdir fs' p False exist_ok) = Inr fs'"
        by simp
      then obtain fs1 where
        a: "mkdir fs (parent p) True True = Inr fs1" and b: "mkdir fs1 p False exist_ok = Inr fs'"
        by (cases "mkdir fs (parent p) True True") simp_all
      from "1.IH"(1) [OF Inl True c a] have d1: "\<forall>q. is_dir fs q \<longrightarrow> is_dir fs1 q" by simp
      from "1.IH"(2) [OF Inl True c a b]
      have d2: "is_dir fs' p \<and> (\<forall>q. is_dir fs1 q \<longrightarrow> is_dir fs' q)" .
      from d1 d2 show ?thesis by blast
    next
      case False
      with Inl "1.prems" have "fs' = fs \<and> is_dir fs p"
        by (simp add: mkdir_other split: if_splits)
      then show ?thesis by simp
    qed
  qed
qed

lemma write_file_dirs:
  "write_file fs p c = Inr fs' \<Longrightarrow> is_dir fs q \<Longrightarrow> is_dir fs' q"
  by (auto simp: write_file_def is_dir_def split: if_splits)

lemma write_files_dirs:
  "write_files inp_dir file_dct fs = Inr fs' \<Longrightarrow> is_dir fs q \<Longrightarrow> is_dir fs' q"
proof (induction file_dct arbitrary: fs)
  case Nil
  then show ?case by simp
next
  case (Cons a file_dct)
  obtain n contents where a: "a = (n, contents)" by (cases a)
  from Cons.prems(1) a obtain fs1 where
    w: "write_file fs (joinpath inp_dir n) (Text contents) = Inr fs1"
    and r: "write_files inp_dir file_dct fs1 = Inr fs'"
    by (auto split: sum.splits)
  from write_file_dirs [OF w Cons.prems(2)] Cons.IH [OF r] show ?case by simp
qed

lemma write_input_files_dirs:
  "write_input_files run_dir file_dct fs = Inr fs' \<Longrightarrow> is_dir fs q \<Longrightarrow> is_dir fs' q"
  by (auto simp: write_input_files_def split: sum.splits
        dest: mkdir_dirs write_files_dirs)

lemma setup_keys_dirs:
  "setup_keys trd fd kt allk tp keys row fs = Inr (row', fs') \<Longrightarrow>
     (\<forall>q. is_dir fs q \<longrightarrow> is_dir fs' q) \<and>
     (\<forall>k \<in> set keys. \<exists>d. subtask_directory k = Inr d \<and> is_dir fs' (joinpath tp d))"
proof (induction keys arbitrary: row fs)
  case Nil
  then show ?case by simp
next
  case (Cons key keys)
  from Cons.prems obtain d fs1 sfd fs2 where
    d: "subtask_directory key = Inr d"
    and m: "mkdir fs (joinpath tp d) True True = Inr fs1"
    and w: "write_input_files (joinpath tp d) sfd fs1 = Inr fs2"
    and rest: "setup_keys trd fd kt allk tp keys
                 (AList.update key (CellPath (joinpath tp d)) row) fs2 = Inr (row', fs')"
    by (auto split: sum.splits)
  note ih = Cons.IH [OF rest]
  from mkdir_dirs [OF m] have m1: "is_dir fs1 (joinpath tp d)"
    and m2: "\<forall>q. is_dir fs q \<longrightarrow> is_dir fs1 q" by simp_all
  have w2: "\<forall>q. is_dir fs1 q \<longrightarrow> is_dir fs2 q"
    using write_input_files_dirs [OF w] by simp
  from m1 m2 w2 ih d show ?case by auto
qed

lemma setup_tasks_dirs:
  "setup_tasks run_dct fd tt kt gid out allk i tasks fs = Inr (rows, fs') \<Longrightarrow>
     (\<forall>q. is_dir fs q \<longrightarrow> is_dir fs' q) \<and>
     (\<forall>j < length tasks. \<forall>k \<in> set (subtask_keys (tasks ! j)).
        \<exists>d. subtask_directory k = Inr d \<and>
            is_dir fs' (joinpath (task_directory out gid (i + j) (name (tasks ! j))) d))"
proof (induction tasks arbitrary: i rows fs)
  case Nil
  then show ?case by simp
next
  case (Cons task tasks)
  from Cons.prems obtain row fs1 rows1 where
    k: "setup_keys
          (AList.update tt (line task)
             (filter (\<lambda>(k, v). k \<in> set (''input'' # (case kt of None \<Rightarrow> [''pes'', ''spc'']
                                                      | Some kt' \<Rightarrow> [kt']))) run_dct))
          fd kt allk (task_directory out gid i (name task)) (subtask_keys task)
          [(StrKey ''task'', CellName (name task))] fs = Inr (row, fs1)"
    and t: "setup_tasks run_dct fd tt kt gid out allk (Suc i) tasks fs1 = Inr (rows1, fs')"
    by (auto split: sum.splits prod.splits)
  note ih = Cons.IH [OF t]
  note kd = setup_keys_dirs [OF k]
  show ?case
  proof (intro conjI allI impI ballI)
    fix q assume "is_dir fs q"
    with kd ih show "is_dir fs' q" by blast
  next
    fix j k assume j: "j < length (task # tasks)"
      and kin: "k \<in> set (subtask_keys ((task # tasks) ! j))"
    show "\<exists>d. subtask_directory k = Inr d \<and>
            is_dir fs' (joinpath (task_directory out gid (i + j) (name ((task # tasks) ! j))) d)"
    proof (cases j)
      case 0
      with kin kd obtain d where "subtask_directory k = Inr d"
        and "is_dir fs1 (joinpath (task_directory out gid i (name task)) d)" by auto
      with ih 0 show ?thesis by auto
    next
      case (Suc j')
      with j kin ih show ?thesis by simp
    qed
  qed
qed

lemma dec_nat_small: "m < 10 \<Longrightarrow> dec_nat m = [char_of (48 + m)]"
  by (subst dec_nat.simps) simp

lemma dec_nat_nonempty: "dec_nat m \<noteq> []"
  by (subst dec_nat.simps) simp

lemma dec_nat_big: "10 \<le> m \<Longrightarrow> 2 \<le> length (dec_nat m)"
proof -
  assume "10 \<le> m"
  then have "dec_nat m = dec_nat (m div 10) @ [char_of (48 + m mod 10)]"
    by (subst dec_nat.simps) simp
  moreover have "1 \<le> length (dec_nat (m div 10))"
    using dec_nat_nonempty [of "m div 10"] by (cases "dec_nat (m div 10)") simp_all
  ultimately show ?thesis by simp
qed

lemma id_str_cases:
  "id_str n = (if 0 \<le> n \<and> n < 10 then [CHR ''0'', char_of (48 + nat n)] else str_int n)"
proof (cases "0 \<le> n \<and> n < 10")
  case True
  then have "nat n < 10" by linarith
  then have "dec_nat (nat n) = [char_of (48 + nat n)]"
    by (rule dec_nat_small)
  with True show ?thesis by (simp add: id_str_def str_int_def)
next
  case False
  have "2 \<le> length (str_int n)"
  proof (cases "n < 0")
    case True
    have "1 \<le> length (dec_nat (nat (- n)))"
      using dec_nat_nonempty [of "nat (- n)"] by (cases "dec_nat (nat (- n))") simp_all
    with True show ?thesis by (simp add: str_int_def)
  next
    case nn: False
    with False have "10 \<le> nat n" by linarith
    then show ?thesis using dec_nat_big [of "nat n"] nn by (simp add: str_int_def)
  qed
  then have eq: "id_str n = str_int n" by (simp add: id_str_def)
  show ?thesis by (subst if_not_P [OF False]) (rule eq)
qed

text \<open>
  Claim C8.  Whenever \<open>setup_subtask_group\<close> returns a table for a group with an
  identifier, the table has one row for each task of the group, in order, and for the
  task at index \<open>j\<close> and each of its subtask keys the cell of the row is the path
  \<open>out_path / <group_id>_<j>_<task name> / <key encoding>\<close>, with \<open>j\<close> formatted by
  \<open>id_str\<close>, and this path is a directory of the file system returned.  The encoding of
  the key is \<open>subtask_directory\<close>: \<open>id_str\<close> of an integer key, the two \<open>id_str\<close> joined
  by \<open>_\<close> for a pair, the string itself for a string key such as \<open>all\<close>; and \<open>id_str\<close>
  pads a number from 0 to 9 with one zero to two digits and is the decimal numeral
  otherwise.  The path is thus a function of the output path, the group identifier, the
  index and name of the task and the key, and of nothing else.
\<close>

theorem subtask_paths_canonical:
  "(map_sum id fst (setup_subtask_group lib run_dct file_dct task_type key_type (Some gid)
                      out_path fs) = Inr (DataFrame rows) \<longrightarrow>
   (\<exists>tasks fs'.
      determine_task_list lib run_dct file_dct task_type key_type (StrKey ''all'') = Inr tasks \<and>
      setup_subtask_group lib run_dct file_dct task_type key_type (Some gid) out_path fs
        = Inr (DataFrame rows, fs') \<and>
      length rows = length tasks \<and>
      (\<forall>j < length tasks. \<forall>k \<in> set (subtask_keys (tasks ! j)).
         \<exists>d. subtask_directory k = Inr d \<and>
             map_of (rows ! j) k
               = Some (CellPath (joinpath (joinpath out_path
                     ((case gid of GidInt i \<Rightarrow> str_int i | GidStr s \<Rightarrow> s) @ ''_'' @
                      id_str (int j) @ ''_'' @ name (tasks ! j))) d)) \<and>
             is_dir fs' (joinpath (joinpath out_path
                     ((case gid of GidInt i \<Rightarrow> str_int i | GidStr s \<Rightarrow> s) @ ''_'' @
                      id_str (int j) @ ''_'' @ name (tasks ! j))) d)))) \<and>
   subtask_directory (IntKey n) = Inr (id_str n) \<and>
   subtask_directory (PairKey p c) = Inr (id_str p @ ''_'' @ id_str c) \<and>
   subtask_directory (StrKey s') = Inr s' \<and>
   id_str n = (if 0 \<le> n \<and> n < 10 then [CHR ''0'', char_of (48 + nat n)] else str_int n)"
proof (intro conjI impI)
  let ?g = "case gid of GidInt i \<Rightarrow> str_int i | GidStr s \<Rightarrow> s"
  assume h: "map_sum id fst (setup_subtask_group lib run_dct file_dct task_type key_type
                (Some gid) out_path fs) = Inr (DataFrame rows)"
  then obtain fs' where s: "setup_subtask_group lib run_dct file_dct task_type key_type
                (Some gid) out_path fs = Inr (DataFrame rows, fs')"
    by (cases "setup_subtask_group lib run_dct file_dct task_type key_type
                (Some gid) out_path fs") auto
  have eq: "setup_subtask_group lib run_dct file_dct task_type key_type (Some gid) out_path fs =
      (case determine_task_list lib run_dct file_dct task_type key_type (StrKey ''all'') of
         Inl e \<Rightarrow> Inl e
       | Inr tasks \<Rightarrow>
      (case write_task_list tasks (joinpath out_path (?g @ ''.yaml'')) fs of
         Inl e \<Rightarrow> Inl e
       | Inr fs1 \<Rightarrow>
      (case setup_tasks run_dct file_dct task_type key_type ?g out_path (StrKey ''all'') 0
              tasks fs1 of
         Inl e \<Rightarrow> Inl e
       | Inr (row_dcts, fs2) \<Rightarrow>
      (case write_file fs2 (joinpath out_path (?g @ ''.csv'')) (Csv row_dcts) of
         Inl e \<Rightarrow> Inl e
       | Inr fs3 \<Rightarrow> Inr (DataFrame row_dcts, fs3)))))"
    by (simp add: setup_subtask_group_def Let_def)
  from s eq obtain tasks where
    d: "determine_task_list lib run_dct file_dct task_type key_type (StrKey ''all'') = Inr tasks"
    and s1: "(case write_task_list tasks (joinpath out_path (?g @ ''.yaml'')) fs of
         Inl e \<Rightarrow> Inl e
       | Inr fs1 \<Rightarrow>
      (case setup_tasks run_dct file_dct task_type key_type ?g out_path (StrKey ''all'') 0
              tasks fs1 of
         Inl e \<Rightarrow> Inl e
       | Inr (row_dcts, fs2) \<Rightarrow>
      (case write_file fs2 (joinpath out_path (?g @ ''.csv'')) (Csv row_dcts) of
         Inl e \<Rightarrow> Inl e
       | Inr fs3 \<Rightarrow> Inr (DataFrame row_dcts, fs3)))) = Inr (DataFrame rows, fs')"
    by (cases "determine_task_list lib run_dct file_dct task_type key_type (StrKey ''all'')")
       simp_all
  from s1 obtain fs1 where
    s2: "(case setup_tasks run_dct file_dct task_type key_type ?g out_path (StrKey ''all'') 0
              tasks fs1 of
         Inl e \<Rightarrow> Inl e
       | Inr (row_dcts, fs2) \<Rightarrow>
      (case write_file fs2 (joinpath out_path (?g @ ''.csv'')) (Csv row_dcts) of
         Inl e \<Rightarrow> Inl e
       | Inr fs3 \<Rightarrow> Inr (DataFrame row_dcts, fs3))) = Inr (DataFrame rows, fs')"
    by (cases "write_task_list tasks (joinpath out_path (?g @ ''.yaml'')) fs") simp_all
  from s2 obtain rows' fs2 where
    t': "setup_tasks run_dct file_dct task_type key_type ?g out_path (StrKey ''all'') 0
              tasks fs1 = Inr (rows', fs2)"
    and s3: "(case write_file fs2 (joinpath out_path (?g @ ''.csv'')) (Csv rows') of
         Inl e \<Rightarrow> Inl e
       | Inr fs3 \<Rightarrow> Inr (DataFrame rows', fs3)) = Inr (DataFrame rows, fs')"
    by (cases "setup_tasks run_dct file_dct task_type key_type ?g out_path (StrKey ''all'') 0
              tasks fs1") auto
  from s3 have r: "rows' = rows"
    and w: "write_file fs2 (joinpath out_path (?g @ ''.csv'')) (Csv rows) = Inr fs'"
    by (cases "write_file fs2 (joinpath out_path (?g @ ''.csv'')) (Csv rows')"; simp)+
  from t' r have t: "setup_tasks run_dct file_dct task_type key_type ?g out_path (StrKey ''all'') 0
              tasks fs1 = Inr (rows, fs2)" by simp
  note rows = setup_tasks_rows [OF t]
  note dirs = setup_tasks_dirs [OF t]
  have cell: "\<forall>j < length tasks. \<forall>k \<in> set (subtask_keys (tasks ! j)).
         \<exists>d. subtask_directory k = Inr d \<and>
             map_of (rows ! j) k
               = Some (CellPath (joinpath (joinpath out_path
                     (?g @ ''_'' @ id_str (int j) @ ''_'' @ name (tasks ! j))) d)) \<and>
             is_dir fs' (joinpath (joinpath out_path
                     (?g @ ''_'' @ id_str (int j) @ ''_'' @ name (tasks ! j))) d)"
  proof (intro allI impI ballI)
    fix j k assume j: "j < length tasks" and k: "k \<in> set (subtask_keys (tasks ! j))"
    from rows j k obtain d1 where
      d1: "subtask_directory k = Inr d1"
      and c1: "map_of (rows ! j) k
                = Some (CellPath (joinpath (task_directory out_path ?g (0 + j) (name (tasks ! j))) d1))"
      by blast
    from dirs j k obtain d2 where
      d2: "subtask_directory k = Inr d2"
      and c2: "is_dir fs2 (joinpath (task_directory out_path ?g (0 + j) (name (tasks ! j))) d2)"
      by blast
    from d1 d2 have "d2 = d1" by simp
    with c2 write_file_dirs [OF w]
    have c3: "is_dir fs' (joinpath (task_directory out_path ?g (0 + j) (name (tasks ! j))) d1)"
      by simp
    from d1 c1 c3 show "\<exists>d. subtask_directory k = Inr d \<and>
             map_of (rows ! j) k
               = Some (CellPath (joinpath (joinpath out_path
                     (?g @ ''_'' @ id_str (int j) @ ''_'' @ name (tasks ! j))) d)) \<and>
             is_dir fs' (joinpath (joinpath out_path
                     (?g @ ''_'' @ id_str (int j) @ ''_'' @ name (tasks ! j))) d)"
      by (simp add: task_directory_def)
  qed
  from d s rows cell
  show "\<exists>tasks fs'.
      determine_task_list lib run_dct file_dct task_type key_type (StrKey ''all'') = Inr tasks \<and>
      setup_subtask_group lib run_dct file_dct task_type key_type (Some gid) out_path fs
        = Inr (DataFrame rows, fs') \<and>
      length rows = length tasks \<and>
      (\<forall>j < length tasks. \<forall>k \<in> set (subtask_keys (tasks ! j)).
         \<exists>d. subtask_directory k = Inr d \<and>
             map_of (rows ! j) k
               = Some (CellPath (joinpath (joinpath out_path
                     (?g @ ''_'' @ id_str (int j) @ ''_'' @ name (tasks ! j))) d)) \<and>
             is_dir fs' (joinpath (joinpath out_path
                     (?g @ ''_'' @ id_str (int j) @ ''_'' @ name (tasks ! j))) d))"
    by blast
next
  show "subtask_directory (IntKey n) = Inr (id_str n)" by simp
next
  show "subtask_directory (PairKey p c) = Inr (id_str p @ ''_'' @ id_str c)"
    by (simp add: join_with_def)
next
  show "subtask_directory (StrKey s') = Inr s'" by simp
next
  show "id_str n = (if 0 \<le> n \<and> n < 10 then [CHR ''0'', char_of (48 + nat n)] else str_int n)"
    by (rule id_str_cases)
qed

theorem subtask_paths_canonical_witness:
  "map_sum id fst
     (setup_subtask_group example_library
        [(''input'', ''run_prefix = ./run'' @ [LF] @ ''save_prefix = ./save''),
         (''spc'', ''    1-2''), (''els'', ''    spc init_geom runlvl=lvl1'')]
        example_file_dct ''els'' (Some ''spc'') (Some (GidInt 0)) (path_of ''subtasks'')
        example_fs)
     = Inr (DataFrame
         [[(StrKey ''task'', CellName ''init_geom''),
           (IntKey 1, CellPath (Path [] [''subtasks'', ''0_00_init_geom'', ''01''])),
           (IntKey 2, CellPath (Path [] [''subtasks'', ''0_00_init_geom'', ''02'']))]]) \<and>
   (\<exists>tasks fs'.
      determine_task_list example_library
        [(''input'', ''run_prefix = ./run'' @ [LF] @ ''save_prefix = ./save''),
         (''spc'', ''    1-2''), (''els'', ''    spc init_geom runlvl=lvl1'')]
        example_file_dct ''els'' (Some ''spc'') (StrKey ''all'') = Inr tasks \<and>
      setup_subtask_group example_library
        [(''input'', ''run_prefix = ./run'' @ [LF] @ ''save_prefix = ./save''),
         (''spc'', ''    1-2''), (''els'', ''    spc init_geom runlvl=lvl1'')]
        example_file_dct ''els'' (Some ''spc'') (Some (GidInt 0)) (path_of ''subtasks'')
        example_fs
        = Inr (DataFrame
            [[(StrKey ''task'', CellName ''init_geom''),
              (IntKey 1, CellPath (Path [] [''subtasks'', ''0_00_init_geom'', ''01''])),
              (IntKey 2, CellPath (Path [] [''subtasks'', ''0_00_init_geom'', ''02'']))]],
           fs') \<and>
      length [[(StrKey ''task'', CellName ''init_geom''),
               (IntKey 1, CellPath (Path [] [''subtasks'', ''0_00_init_geom'', ''01''])),
               (IntKey 2, CellPath (Path [] [''subtasks'', ''0_00_init_geom'', ''02'']))]]
        = length tasks \<and>
      (\<forall>j < length tasks. \<forall>k \<in> set (subtask_keys (tasks ! j)).
         \<exists>d. subtask_directory k = Inr d \<and>
             map_of ([[(StrKey ''task'', CellName ''init_geom''),
                       (IntKey 1, CellPath (Path [] [''subtasks'', ''0_00_init_geom'', ''01''])),
                       (IntKey 2, CellPath (Path [] [''subtasks'', ''0_00_init_geom'', ''02'']))]]
                     ! j) k
               = Some (CellPath (joinpath (joinpath (path_of ''subtasks'')
                     ((case GidInt 0 of GidInt i \<Rightarrow> str_int i | GidStr s \<Rightarrow> s) @ ''_'' @
                      id_str (int j) @ ''_'' @ name (tasks ! j))) d)) \<and>
             is_dir fs' (joinpath (joinpath (path_of ''subtasks'')
                     ((case GidInt 0 of GidInt i \<Rightarrow> str_int i | GidStr s \<Rightarrow> s) @ ''_'' @
                      id_str (int j) @ ''_'' @ name (tasks ! j))) d)))"
proof -
  let ?rd = "[(''input'', ''run_prefix = ./run'' @ [LF] @ ''save_prefix = ./save''),
              (''spc'', ''    1-2''), (''els'', ''    spc init_geom runlvl=lvl1'')]"
  let ?rows = "[[(StrKey ''task'', CellName ''init_geom''),
                 (IntKey 1, CellPath (Path [] [''subtasks'', ''0_00_init_geom'', ''01''])),
                 (IntKey 2, CellPath (Path [] [''subtasks'', ''0_00_init_geom'', ''02'']))]]"
  have h: "map_sum id fst
     (setup_subtask_group example_library ?rd example_file_dct ''els'' (Some ''spc'')
        (Some (GidInt 0)) (path_of ''subtasks'') example_fs) = Inr (DataFrame ?rows)"
    by code_simp
  note th = subtask_paths_canonical [where lib = example_library and run_dct = ?rd
      and file_dct = example_file_dct and task_type = "''els''" and key_type = "Some ''spc''"
      and gid = "GidInt 0" and out_path = "path_of ''subtasks''" and fs = example_fs
      and rows = ?rows]
  from th [THEN conjunct1, THEN mp, OF h] h show ?thesis
    by (intro conjI)
qed

subsection \<open>The input block of the run dictionary\<close>









end
